theory Spec2Isabelle
  imports Complex_Main "HOL-Library.FSet"
begin

section \<open>Data model (app/models/schemas.py)\<close>

text \<open>
  The enums of \<^verbatim>\<open>schemas.py\<close> are datatypes with the members in source order.
  The members of \<^verbatim>\<open>MPPaymentStatus\<close> carry the prefix \<open>MP_\<close> because several of
  their names are also members of \<^verbatim>\<open>OrderStatus\<close>.
\<close>

datatype PaymentMethod = MERCADOPAGO | AT_VET

datatype OrderStatus =
    CREATED
  | PAYMENT_PENDING_MP
  | PAYMENT_AT_VET
  | PAYMENT_APPROVED
  | PAYMENT_REJECTED
  | PREPARING
  | READY_FOR_PICKUP
  | OUT_FOR_DELIVERY
  | DELIVERED
  | CANCELLED
  | COMPLETED
  | PAYMENT_PENDING

datatype DeliveryMode = PICKUP | DELIVERY

datatype MPPaymentStatus =
    MP_PENDING
  | MP_APPROVED
  | MP_AUTHORIZED
  | MP_IN_PROCESS
  | MP_IN_MEDIATION
  | MP_REJECTED
  | MP_CANCELLED
  | MP_REFUNDED
  | MP_CHARGED_BACK

text \<open>
  A \<^verbatim>\<open>datetime\<close> is the number of microseconds since the epoch, a \<^verbatim>\<open>timedelta\<close> a
  number of microseconds. The type \<^verbatim>\<open>datetime\<close> ends at \<^verbatim>\<open>datetime.min\<close> (year 1) and
  \<^verbatim>\<open>datetime.max\<close> (year 9999): an addition or a subtraction whose result lies outside
  raises \<^verbatim>\<open>OverflowError\<close>, which is \<open>None\<close> here (a \<^verbatim>\<open>timedelta\<close> too long to be built
  raises the same error, and its sum would lie outside as well). \<^verbatim>\<open>Decimal\<close> amounts are
  exact rationals; the decimal context rounds to 28 significant digits, so the amounts
  are those of the code as long as the sums and products stay within them.
\<close>

type_synonym datetime = int

definition datetime_min :: datetime where
  "datetime_min = - 62135596800000000"

definition datetime_max :: datetime where
  "datetime_max = 253402300799999999"

definition datetime_add :: "datetime \<Rightarrow> int \<Rightarrow> datetime option" where
  "datetime_add d delta =
     (if d + delta < datetime_min \<or> datetime_max < d + delta then None
      else Some (d + delta))"

text \<open>
  The code subtracts only the margin of five minutes from a stored \<^verbatim>\<open>datetime\<close>, which
  can cross the lower end alone.
\<close>

definition datetime_sub :: "datetime \<Rightarrow> int \<Rightarrow> datetime option" where
  "datetime_sub d delta =
     (if d - delta < datetime_min then None else Some (d - delta))"

definition minutes :: "int \<Rightarrow> int" where
  "minutes n = n * 60000000"

definition seconds :: "int \<Rightarrow> int" where
  "seconds n = n * 1000000"

record CartItem =
  product_sku :: string
  product_name :: string
  quantity :: int
  unit_price :: rat
  item_currency :: string

definition item_subtotal :: "CartItem \<Rightarrow> rat" where
  "item_subtotal item = unit_price item * of_int (quantity item)"

record CartSummary =
  cart_items :: "CartItem list"
  cart_currency :: string

definition cart_total_amount :: "CartSummary \<Rightarrow> rat" where
  "cart_total_amount cart = sum_list (map item_subtotal (cart_items cart))"

definition cart_total_items :: "CartSummary \<Rightarrow> int" where
  "cart_total_items cart = sum_list (map quantity (cart_items cart))"

definition is_empty :: "CartSummary \<Rightarrow> bool" where
  "is_empty cart = (length (cart_items cart) = 0)"

definition new_CartSummary :: CartSummary where
  "new_CartSummary = \<lparr>cart_items = [], cart_currency = ''ARS''\<rparr>"

record CustomerData =
  name :: string
  lastname :: string
  email :: string
  whatsapp_e164 :: string

definition full_name :: "CustomerData \<Rightarrow> string" where
  "full_name c = name c @ '' '' @ lastname c"

record DeliveryData =
  mode :: DeliveryMode
  address :: "string option"
  zone :: "string option"
  delivery_notes :: "string option"

record Order =
  order_id :: string
  vet_id :: string
  customer :: CustomerData
  delivery :: DeliveryData
  items :: "CartItem list"
  subtotal :: rat
  shipping_cost :: rat
  total_amount :: rat
  currency :: string
  status :: OrderStatus
  payment_method :: "PaymentMethod option"
  mp_preference_id :: "string option"
  mp_payment_id :: "string option"
  mp_status :: "MPPaymentStatus option"
  external_reference :: "string option"
  created_at :: datetime
  updated_at :: datetime

definition generate_external_reference :: "Order \<Rightarrow> string" where
  "generate_external_reference ord = ''DTV|'' @ vet_id ord @ ''|'' @ order_id ord"

record StoredToken =
  token_vet_id :: string
  access_token :: string
  refresh_token :: string
  expires_at :: datetime
  mp_user_id :: string
  token_updated_at :: datetime

record VetContext =
  vet_vet_id :: string
  vet_name :: string
  vet_whatsapp_e164 :: string
  vet_active :: bool
  vet_mp_connected :: bool
  vet_mp_user_id :: "string option"

record Customer =
  customer_id :: string
  customer_vet_id :: string
  customer_name :: string
  customer_lastname :: string
  customer_email :: string
  customer_whatsapp_e164 :: string
  customer_address :: "string option"
  customer_active :: bool

datatype EventType =
    ORDER_CREATED
  | ORDER_STATUS_CHANGED
  | PAYMENT_LINK_SENT
  | PAYMENT_RECEIVED
  | EV_PAYMENT_APPROVED
  | EV_PAYMENT_REJECTED
  | PAYMENT_STATUS_CHANGED
  | ORDER_COMPLETED
  | ORDER_CANCELLED
  | WEBHOOK_RECEIVED
  | ERROR

record Event =
  event_order_id :: "string option"
  event_vet_id :: "string option"
  event_type :: EventType
  event_created_at :: datetime

section \<open>Token vault (app/infra/token_store.py)\<close>

text \<open>
  \<^verbatim>\<open>LocalTokenStore\<close> keeps one JSON object per merchant in a file: a map from the
  merchant id to the token. \<^verbatim>\<open>SecretManagerTokenStore\<close> talks to a secret service
  through a client; the service is a map from secret ids to the versions of the secret,
  newest first. The client calls follow the service's contract: reading or deleting a
  secret that does not exist raises \<open>NotFound\<close>, creating one that exists raises
  \<open>AlreadyExists\<close>. The backing file and the service are taken to be reachable, and the
  client library to be installed.
\<close>

datatype client_error = NotFound | AlreadyExists

type_synonym secrets = "string \<rightharpoonup> StoredToken list"

definition access_secret_version :: "secrets \<Rightarrow> string \<Rightarrow> client_error + StoredToken" where
  "access_secret_version c secret_id =
     (case c secret_id of
        None \<Rightarrow> Inl NotFound
      | Some [] \<Rightarrow> Inl NotFound
      | Some (v # vs) \<Rightarrow> Inr v)"

definition create_secret :: "secrets \<Rightarrow> string \<Rightarrow> client_error + secrets" where
  "create_secret c secret_id =
     (case c secret_id of
        None \<Rightarrow> Inr (c(secret_id \<mapsto> []))
      | Some vs \<Rightarrow> Inl AlreadyExists)"

definition add_secret_version :: "secrets \<Rightarrow> string \<Rightarrow> StoredToken \<Rightarrow> client_error + secrets" where
  "add_secret_version c secret_id data =
     (case c secret_id of
        None \<Rightarrow> Inl NotFound
      | Some vs \<Rightarrow> Inr (c(secret_id \<mapsto> data # vs)))"

definition delete_secret :: "secrets \<Rightarrow> string \<Rightarrow> client_error + secrets" where
  "delete_secret c secret_id =
     (case c secret_id of
        None \<Rightarrow> Inl NotFound
      | Some vs \<Rightarrow> Inr (c(secret_id := None)))"

definition secret_id_of :: "string \<Rightarrow> string" where
  "secret_id_of vet = ''dtv-token-'' @ vet"

datatype TokenStore =
    LocalTokenStore "string \<rightharpoonup> StoredToken"
  | SecretManagerTokenStore secrets

fun get_token :: "TokenStore \<Rightarrow> string \<Rightarrow> StoredToken option" where
  "get_token (LocalTokenStore data) vet = data vet"
| "get_token (SecretManagerTokenStore c) vet =
     (case access_secret_version c (secret_id_of vet) of
        Inr token \<Rightarrow> Some token
      | Inl e \<Rightarrow> None)"

fun save_token :: "TokenStore \<Rightarrow> StoredToken \<Rightarrow> bool \<times> TokenStore" where
  "save_token (LocalTokenStore data) token =
     (True, LocalTokenStore (data(token_vet_id token \<mapsto> token)))"
| "save_token (SecretManagerTokenStore c) token =
     (let c1 = (case create_secret c (secret_id_of (token_vet_id token)) of
                  Inr c' \<Rightarrow> c'
                | Inl e \<Rightarrow> c)
      in case add_secret_version c1 (secret_id_of (token_vet_id token)) token of
           Inr c2 \<Rightarrow> (True, SecretManagerTokenStore c2)
         | Inl e \<Rightarrow> (False, SecretManagerTokenStore c1))"

fun delete_token :: "TokenStore \<Rightarrow> string \<Rightarrow> bool \<times> TokenStore" where
  "delete_token (LocalTokenStore data) vet =
     (if vet \<in> dom data then (True, LocalTokenStore (data(vet := None)))
      else (True, LocalTokenStore data))"
| "delete_token (SecretManagerTokenStore c) vet =
     (case delete_secret c (secret_id_of vet) of
        Inr c' \<Rightarrow> (True, SecretManagerTokenStore c')
      | Inl e \<Rightarrow> (False, SecretManagerTokenStore c))"

section \<open>Process state and environment\<close>

text \<open>
  Everything the handlers read and write is one record: the module-level globals
  (\<^verbatim>\<open>_processed_notifications\<close>, \<^verbatim>\<open>_carts\<close>, the token store singleton), the
  worksheets of the record store, and two logs of what was sent out (the requests made to
  the payment processor, the messages handed to the notifiers). A worksheet is the list
  of its rows in sheet order, each row in parsed form; the record store is taken to be
  reachable, so that a lookup or an update fails only for want of a matching row.
\<close>

datatype mp_request =
    ExchangeCode string
  | RefreshToken string
  | CreatePreference string string
  | GetPayment string string

datatype message =
    PaymentConfirmationToVet string string
  | OrderStatusToCustomer string string
  | PaymentApprovedEmail string string
  | OrderCreatedEmail string

record world =
  processed_notifications :: "string fset"
  carts :: "string \<rightharpoonup> CartSummary"
  token_store :: TokenStore
  vets_sheet :: "VetContext list"
  customers_sheet :: "Customer list"
  orders_sheet :: "Order list"
  events_sheet :: "Event list"
  shipping_sheet :: "(string \<times> rat) list"
  mp_requests :: "mp_request list"
  outbox :: "message list"

text \<open>
  What a call cannot decide by itself comes from the environment: the clock, the random
  ids, the answers of the payment processor, the telephone-number library and whether the
  messaging provider accepts a message. A processor answer that is not a success (a status
  other than 200, a network error) is \<open>None\<close>, as the helpers of the source return it; a
  JSON field that may be missing is an option. The fetch of a payment, which the webhook
  makes without a helper, either raises, or answers a status other than 200
  (\<open>HttpStatus\<close>), or answers 200 with the payment (\<open>HttpOk\<close>), whose text fields are
  empty when the JSON has none.
\<close>

record token_response =
  resp_access_token :: "string option"
  resp_refresh_token :: "string option"
  resp_expires_in :: "int option"
  resp_user_id :: "string option"

record preference =
  pref_id :: "string option"
  init_point :: "string option"
  sandbox_init_point :: "string option"

record payment_data =
  pay_external_reference :: string
  pay_status :: string
  pay_status_detail :: string

datatype payment_response =
    RequestRaises
  | HttpStatus nat
  | HttpOk payment_data

text \<open>
  \<^verbatim>\<open>datetime.utcnow()\<close> is a \<^verbatim>\<open>datetime\<close>: whatever the clock of the environment reads,
  \<open>utcnow\<close> lies between \<^verbatim>\<open>datetime.min\<close> and \<^verbatim>\<open>datetime.max\<close>. A write to the token
  vault (the file, or a new version of the secret) goes through or fails as the
  environment says; a failed write leaves the vault as it was and answers \<open>False\<close>.
  \<^verbatim>\<open>uuid4().hex\<close> is a string of hexadecimal digits.
\<close>

record env =
  clock :: int
  order_uuid_hex :: string
  customer_uuid_hex :: string
  has_mp :: bool
  token_store_writable :: bool
  exchange_code_for_tokens :: "string \<Rightarrow> token_response option"
  refresh_mp_token :: "string \<Rightarrow> token_response option"
  create_mp_preference :: "string \<Rightarrow> Order \<Rightarrow> string \<Rightarrow> string \<Rightarrow> string \<Rightarrow> preference option"
  get_mp_payment :: "string \<Rightarrow> string \<Rightarrow> payment_response"
  parse_phone :: "string \<Rightarrow> string option"
  whatsapp_sent :: bool

definition utcnow :: "env \<Rightarrow> datetime" where
  "utcnow e = max datetime_min (min datetime_max (clock e))"

definition hex_string :: "string \<Rightarrow> bool" where
  "hex_string s = (set s \<subseteq> set ''0123456789abcdef'')"

section \<open>Record store (app/infra/sheets.py)\<close>

text \<open>
  The update functions scan the rows and write the cells of the first row whose
  \<^verbatim>\<open>order_id\<close> matches; \<open>update_first\<close> is that loop. A text cell read back through
  \<^verbatim>\<open>str(...) or None\<close> is \<open>None\<close> when it is empty. An audit event keeps its type, its
  order, its merchant and its time; the free-form payload and the random event id are
  left out.
\<close>

fun update_first :: "('a \<Rightarrow> bool) \<Rightarrow> ('a \<Rightarrow> 'a) \<Rightarrow> 'a list \<Rightarrow> bool \<times> 'a list" where
  "update_first P f [] = (False, [])"
| "update_first P f (row # rows) =
     (if P row then (True, f row # rows)
      else (fst (update_first P f rows), row # snd (update_first P f rows)))"

definition cell :: "string \<Rightarrow> string option" where
  "cell s = (if s = [] then None else Some s)"

definition get_vet_by_id :: "world \<Rightarrow> string \<Rightarrow> VetContext option" where
  "get_vet_by_id w vet = find (\<lambda>v. vet_vet_id v = vet) (vets_sheet w)"

definition create_order_record :: "Order \<Rightarrow> world \<Rightarrow> bool \<times> world" where
  "create_order_record ord w = (True, w\<lparr>orders_sheet := orders_sheet w @ [ord]\<rparr>)"

definition get_order_by_id :: "world \<Rightarrow> string \<Rightarrow> Order option" where
  "get_order_by_id w oid = find (\<lambda>row. order_id row = oid) (orders_sheet w)"

definition get_order_by_external_reference :: "world \<Rightarrow> string \<Rightarrow> Order option" where
  "get_order_by_external_reference w ref =
     find (\<lambda>row. (case external_reference row of None \<Rightarrow> [] | Some r \<Rightarrow> r) = ref)
       (orders_sheet w)"

definition update_order_payment_status ::
  "env \<Rightarrow> string \<Rightarrow> string \<Rightarrow> MPPaymentStatus \<Rightarrow> OrderStatus \<Rightarrow> world \<Rightarrow> bool \<times> world" where
  "update_order_payment_status e oid payment_id mps st w =
     (let r = update_first (\<lambda>row. order_id row = oid)
                (\<lambda>row. row\<lparr>mp_payment_id := cell payment_id, mp_status := Some mps,
                            status := st, updated_at := utcnow e\<rparr>)
                (orders_sheet w)
      in (fst r, w\<lparr>orders_sheet := snd r\<rparr>))"

definition update_order_status :: "env \<Rightarrow> string \<Rightarrow> OrderStatus \<Rightarrow> world \<Rightarrow> bool \<times> world" where
  "update_order_status e oid new_status w =
     (let r = update_first (\<lambda>row. order_id row = oid)
                (\<lambda>row. row\<lparr>status := new_status, updated_at := utcnow e\<rparr>)
                (orders_sheet w)
      in (fst r, w\<lparr>orders_sheet := snd r\<rparr>))"

definition set_order_payment_method ::
  "env \<Rightarrow> string \<Rightarrow> PaymentMethod \<Rightarrow> OrderStatus \<Rightarrow> world \<Rightarrow> bool \<times> world" where
  "set_order_payment_method e oid method new_status w =
     (let r = update_first (\<lambda>row. order_id row = oid)
                (\<lambda>row. row\<lparr>payment_method := Some method, status := new_status,
                            updated_at := utcnow e\<rparr>)
                (orders_sheet w)
      in (fst r, w\<lparr>orders_sheet := snd r\<rparr>))"

definition update_order_preference ::
  "env \<Rightarrow> string \<Rightarrow> string \<Rightarrow> string \<Rightarrow> world \<Rightarrow> bool \<times> world" where
  "update_order_preference e oid preference_id ref w =
     (let r = update_first (\<lambda>row. order_id row = oid)
                (\<lambda>row. row\<lparr>mp_preference_id := cell preference_id,
                            external_reference := cell ref,
                            payment_method := Some MERCADOPAGO,
                            status := PAYMENT_PENDING_MP, updated_at := utcnow e\<rparr>)
                (orders_sheet w)
      in (fst r, w\<lparr>orders_sheet := snd r\<rparr>))"

definition log_event ::
  "env \<Rightarrow> EventType \<Rightarrow> string option \<Rightarrow> string option \<Rightarrow> world \<Rightarrow> bool \<times> world" where
  "log_event e et oid vet w =
     (True, w\<lparr>events_sheet := events_sheet w @
        [\<lparr>event_order_id = oid, event_vet_id = vet, event_type = et,
          event_created_at = utcnow e\<rparr>]\<rparr>)"

section \<open>OAuth tokens (app/tools/oauth_mp.py)\<close>

text \<open>
  The result dictionaries of \<^verbatim>\<open>ensure_valid_mp_token\<close> are the constructors of
  \<open>token_result\<close>, one for each value of the \<^verbatim>\<open>status\<close> key: \<^verbatim>\<open>success\<close> (with the access
  token), \<^verbatim>\<open>not_connected\<close>, \<^verbatim>\<open>refresh_failed\<close> and \<^verbatim>\<open>error\<close>. A missing
  \<^verbatim>\<open>access_token\<close> or \<^verbatim>\<open>expires_in\<close> in the processor's answer raises \<^verbatim>\<open>KeyError\<close>,
  and a date out of range \<^verbatim>\<open>OverflowError\<close>, at the comparison with the margin as at
  the new expiry; the enclosing handler turns both into \<^verbatim>\<open>error\<close>. The answer of
  \<^verbatim>\<open>save_mp_tokens\<close> is not looked at after a refresh. The request to the processor is
  logged when it is made.
\<close>

datatype token_result =
    TokenSuccess string
  | TokenNotConnected
  | TokenRefreshFailed
  | TokenError

definition get_mp_tokens :: "world \<Rightarrow> string \<Rightarrow> StoredToken option" where
  "get_mp_tokens w vet = get_token (token_store w) vet"

definition save_mp_tokens :: "env \<Rightarrow> StoredToken \<Rightarrow> world \<Rightarrow> bool \<times> world" where
  "save_mp_tokens e token w =
     (if token_store_writable e
      then (fst (save_token (token_store w) token),
            w\<lparr>token_store := snd (save_token (token_store w) token)\<rparr>)
      else (False, w))"

definition refresh_request :: "env \<Rightarrow> string \<Rightarrow> world \<Rightarrow> token_response option \<times> world" where
  "refresh_request e rt w =
     (refresh_mp_token e rt, w\<lparr>mp_requests := mp_requests w @ [RefreshToken rt]\<rparr>)"

definition ensure_valid_mp_token :: "env \<Rightarrow> string \<Rightarrow> world \<Rightarrow> token_result \<times> world" where
  "ensure_valid_mp_token e vet w =
     (case get_mp_tokens w vet of
        None \<Rightarrow> (TokenNotConnected, w)
      | Some tokens \<Rightarrow>
          (case datetime_sub (expires_at tokens) (minutes 5) of
             None \<Rightarrow> (TokenError, w)
           | Some limit \<Rightarrow>
          if limit > utcnow e
          then (TokenSuccess (access_token tokens), w)
          else
            (case refresh_request e (refresh_token tokens) w of
               (None, w1) \<Rightarrow> (TokenRefreshFailed, w1)
             | (Some new_tokens, w1) \<Rightarrow>
                 (case resp_access_token new_tokens of
                    None \<Rightarrow> (TokenError, w1)
                  | Some new_access \<Rightarrow>
                      (case resp_expires_in new_tokens of
                         None \<Rightarrow> (TokenError, w1)
                       | Some expires_in \<Rightarrow>
                           (case datetime_add (utcnow e) (seconds expires_in) of
                              None \<Rightarrow> (TokenError, w1)
                            | Some new_expires_at \<Rightarrow>
                           (let updated =
                                  \<lparr>token_vet_id = vet,
                                   access_token = new_access,
                                   refresh_token =
                                     (case resp_refresh_token new_tokens of
                                        Some r \<Rightarrow> r
                                      | None \<Rightarrow> refresh_token tokens),
                                   expires_at = new_expires_at,
                                   mp_user_id = mp_user_id tokens,
                                   token_updated_at = utcnow e\<rparr>
                            in (TokenSuccess (access_token updated),
                                snd (save_mp_tokens e updated w1)))))))))"

section \<open>Strings\<close>

text \<open>
  Text is a list of characters with codes below 256. \<^verbatim>\<open>str.strip\<close> removes the
  characters \<^verbatim>\<open>str.isspace\<close> accepts, \<^verbatim>\<open>str.upper\<close> and \<^verbatim>\<open>str.lower\<close> change the ASCII
  letters; then \<^verbatim>\<open>str.split\<close> with a one-character separator, and the truth value of an
  \<^verbatim>\<open>Optional[str]\<close> (\<^verbatim>\<open>None\<close> and the empty string are false).
\<close>

definition is_space :: "char \<Rightarrow> bool" where
  "is_space c =
     (c \<in> {CHR '' '', CHR 0x09, CHR 0x0A, CHR 0x0B, CHR 0x0C, CHR 0x0D,
            CHR 0x1C, CHR 0x1D, CHR 0x1E, CHR 0x1F, CHR 0x85, CHR 0xA0})"

definition strip :: "string \<Rightarrow> string" where
  "strip s = rev (dropWhile is_space (rev (dropWhile is_space s)))"

definition upper_char :: "char \<Rightarrow> char" where
  "upper_char c =
     (case map_of (zip ''abcdefghijklmnopqrstuvwxyz'' ''ABCDEFGHIJKLMNOPQRSTUVWXYZ'') c of
        Some u \<Rightarrow> u
      | None \<Rightarrow> c)"

definition lower_char :: "char \<Rightarrow> char" where
  "lower_char c =
     (case map_of (zip ''ABCDEFGHIJKLMNOPQRSTUVWXYZ'' ''abcdefghijklmnopqrstuvwxyz'') c of
        Some l \<Rightarrow> l
      | None \<Rightarrow> c)"

definition upper :: "string \<Rightarrow> string" where
  "upper s = map upper_char s"

definition lower :: "string \<Rightarrow> string" where
  "lower s = map lower_char s"

fun split :: "char \<Rightarrow> string \<Rightarrow> string list" where
  "split sep [] = [[]]"
| "split sep (c # cs) =
     (if c = sep then [] # split sep cs
      else (case split sep cs of
              [] \<Rightarrow> [[c]]
            | part # parts \<Rightarrow> (c # part) # parts))"

definition text_of :: "string option \<Rightarrow> string" where
  "text_of v = (case v of None \<Rightarrow> [] | Some s \<Rightarrow> s)"

definition truthy :: "string option \<Rightarrow> bool" where
  "truthy v = (text_of v \<noteq> [])"

section \<open>Cart (app/tools/cart.py)\<close>

definition get_cart :: "string \<Rightarrow> world \<Rightarrow> CartSummary \<times> world" where
  "get_cart session_id w =
     (case carts w session_id of
        None \<Rightarrow> (new_CartSummary, w\<lparr>carts := (carts w)(session_id \<mapsto> new_CartSummary)\<rparr>)
      | Some cart \<Rightarrow> (cart, w))"

definition clear_cart :: "string \<Rightarrow> world \<Rightarrow> world" where
  "clear_cart session_id w =
     (case get_cart session_id w of
        (cart, w1) \<Rightarrow>
          if is_empty cart then w1
          else w1\<lparr>carts := (carts w1)(session_id \<mapsto> new_CartSummary)\<rparr>)"

definition get_cart_for_order :: "string \<Rightarrow> world \<Rightarrow> CartSummary option \<times> world" where
  "get_cart_for_order session_id w =
     (case get_cart session_id w of
        (cart, w1) \<Rightarrow> (if \<not> is_empty cart then Some cart else None, w1))"

section \<open>Shipping rates and customers (app/infra/sheets.py)\<close>

definition sheets_get_shipping_cost :: "world \<Rightarrow> string \<Rightarrow> rat option" where
  "sheets_get_shipping_cost w zone' =
     map_option snd
       (find (\<lambda>row. lower (strip (fst row)) = lower (strip zone')) (shipping_sheet w))"

definition normalize_phone :: "string \<Rightarrow> string" where
  "normalize_phone phone =
     (if phone = [] then []
      else
        (let p1 = strip phone;
             p2 = (case p1 of c # cs \<Rightarrow> (if c = CHR ''='' then CHR ''+'' # cs else p1)
                            | [] \<Rightarrow> p1);
             p3 = filter (\<lambda>c. c \<noteq> CHR '' '' \<and> c \<noteq> CHR ''-'') p2
         in (case p3 of
               c # cs \<Rightarrow> (if c \<in> set ''0123456789'' then CHR ''+'' # p3 else p3)
             | [] \<Rightarrow> p3)))"

definition get_customer_by_phone_or_email ::
  "world \<Rightarrow> string \<Rightarrow> string \<Rightarrow> string \<Rightarrow> Customer option" where
  "get_customer_by_phone_or_email w vet phone mail =
     (if phone = [] \<and> mail = [] then None
      else find (\<lambda>c. (normalize_phone phone \<noteq> []
                          \<and> customer_whatsapp_e164 c = normalize_phone phone)
                       \<or> (mail \<noteq> [] \<and> lower (customer_email c) = lower mail))
             (filter (\<lambda>c. customer_vet_id c = vet \<and> customer_active c) (customers_sheet w)))"

definition create_customer ::
  "env \<Rightarrow> string \<Rightarrow> string \<Rightarrow> string \<Rightarrow> string \<Rightarrow> string \<Rightarrow> string option
     \<Rightarrow> world \<Rightarrow> Customer option \<times> world" where
  "create_customer e vet name' lastname' mail phone addr w =
     (case get_customer_by_phone_or_email w vet phone mail of
        Some existing \<Rightarrow> (Some existing, w)
      | None \<Rightarrow>
          (let c = \<lparr>customer_id = ''CUST-'' @ upper (take 8 (customer_uuid_hex e)),
                    customer_vet_id = vet,
                    customer_name = strip name',
                    customer_lastname = strip lastname',
                    customer_email = lower (strip mail),
                    customer_whatsapp_e164 = normalize_phone phone,
                    customer_address = addr,
                    customer_active = True\<rparr>
           in (Some c, w\<lparr>customers_sheet := customers_sheet w @ [c]\<rparr>)))"

section \<open>Orders (app/tools/orders.py)\<close>

text \<open>
  \<^verbatim>\<open>orders.py\<close> imports \<^verbatim>\<open>get_shipping_cost\<close> from \<^verbatim>\<open>app.infra.sheets\<close> (line 20) and
  later defines a function of the same name at module level (line 258), a tool for the
  agent that returns a result dictionary. The \<^verbatim>\<open>def\<close> rebinds the module global, and
  the body of \<^verbatim>\<open>create_order\<close> looks the name up when it runs: the call at line 137
  reaches the tool, \<open>get_shipping_cost\<close> below, not the function of \<^verbatim>\<open>sheets.py\<close>
  (which the tool itself imports under another name). The value bound to
  \<^verbatim>\<open>shipping_cost\<close> is therefore a \<^verbatim>\<open>Decimal\<close> or a dictionary; \<open>pyval\<close> is the type of
  such a value, and adding anything but a \<^verbatim>\<open>Decimal\<close> to a \<^verbatim>\<open>Decimal\<close> raises
  \<^verbatim>\<open>TypeError\<close>. The tool answers \<^verbatim>\<open>found\<close> or \<^verbatim>\<open>not_found\<close>; its \<^verbatim>\<open>error\<close> answer
  needs an exception out of the function of \<^verbatim>\<open>sheets.py\<close>, which catches its own.
\<close>

datatype shipping_cost_dict =
    ShippingFound string rat
  | ShippingNotFound string

datatype pyval =
    PyNone
  | PyDecimal rat
  | PyDict shipping_cost_dict

definition get_shipping_cost :: "world \<Rightarrow> string \<Rightarrow> shipping_cost_dict" where
  "get_shipping_cost w zone' =
     (case sheets_get_shipping_cost w zone' of
        None \<Rightarrow> ShippingNotFound zone'
      | Some cost \<Rightarrow> ShippingFound zone' cost)"

fun decimal_add :: "rat \<Rightarrow> pyval \<Rightarrow> rat option" where
  "decimal_add d (PyDecimal x) = Some (d + x)"
| "decimal_add d PyNone = None"
| "decimal_add d (PyDict r) = None"

fun as_decimal :: "pyval \<Rightarrow> rat option" where
  "as_decimal (PyDecimal x) = Some x"
| "as_decimal PyNone = None"
| "as_decimal (PyDict r) = None"

text \<open>
  The constructors of the models validate their fields: \<^verbatim>\<open>CustomerData\<close> wants a name
  and a surname of two characters or more and a telephone number the library accepts (it
  stores the number in E.164 form), \<^verbatim>\<open>DeliveryMode\<close> one of its two values, \<^verbatim>\<open>Order\<close>
  amounts that are not negative. A failed validation raises, which is \<open>None\<close> here.
\<close>

definition new_CustomerData ::
  "env \<Rightarrow> string \<Rightarrow> string \<Rightarrow> string \<Rightarrow> string \<Rightarrow> CustomerData option" where
  "new_CustomerData e name' lastname' email' whatsapp =
     (if length name' < 2 \<or> length lastname' < 2 then None
      else (case parse_phone e whatsapp of
              None \<Rightarrow> None
            | Some e164 \<Rightarrow>
                Some \<lparr>name = name', lastname = lastname', email = email',
                      whatsapp_e164 = e164\<rparr>))"

definition new_DeliveryMode :: "string \<Rightarrow> DeliveryMode option" where
  "new_DeliveryMode v =
     (if v = ''PICKUP'' then Some PICKUP
      else if v = ''DELIVERY'' then Some DELIVERY
      else None)"

definition new_Order ::
  "env \<Rightarrow> string \<Rightarrow> string \<Rightarrow> CustomerData \<Rightarrow> DeliveryData \<Rightarrow> CartSummary
     \<Rightarrow> rat \<Rightarrow> pyval \<Rightarrow> rat \<Rightarrow> Order option" where
  "new_Order e oid vet cust deliv cart sub ship total_amount' =
     (case as_decimal ship of
        None \<Rightarrow> None
      | Some ship_cost \<Rightarrow>
          if sub < 0 \<or> ship_cost < 0 \<or> total_amount' < 0 then None
          else Some \<lparr>order_id = oid, vet_id = vet, customer = cust, delivery = deliv,
                     items = cart_items cart, subtotal = sub, shipping_cost = ship_cost,
                     total_amount = total_amount', currency = cart_currency cart,
                     status = CREATED, payment_method = None, mp_preference_id = None,
                     mp_payment_id = None, mp_status = None, external_reference = None,
                     created_at = utcnow e, updated_at = utcnow e\<rparr>)"

datatype validation =
    CustomerDataInvalid
  | AddressMissing
  | ZoneMissing
  | DeliveryModeInvalid
  | ZoneNotCovered

text \<open>
  The values of the \<^verbatim>\<open>status\<close> key of the dictionary \<^verbatim>\<open>create_order\<close> returns:
  \<^verbatim>\<open>created\<close> (with the order id), \<^verbatim>\<open>empty_cart\<close>, \<^verbatim>\<open>validation_error\<close> (with the
  message, here the check that failed) and \<^verbatim>\<open>error\<close>.
\<close>

datatype create_order_result =
    OrderCreated string
  | OrderEmptyCart
  | OrderValidationError validation
  | OrderError

definition send_order_created_notification :: "string \<Rightarrow> world \<Rightarrow> world" where
  "send_order_created_notification oid w = w\<lparr>outbox := outbox w @ [OrderCreatedEmail oid]\<rparr>"

definition create_order ::
  "env \<Rightarrow> string \<Rightarrow> string \<Rightarrow> string \<Rightarrow> string \<Rightarrow> string \<Rightarrow> string \<Rightarrow> string
     \<Rightarrow> string option \<Rightarrow> string option \<Rightarrow> world \<Rightarrow> create_order_result \<times> world" where
  "create_order e session_id vet customer_name' customer_lastname' customer_email'
       customer_whatsapp delivery_mode delivery_address delivery_zone w =
     (case get_cart_for_order session_id w of
        (None, w1) \<Rightarrow> (OrderEmptyCart, w1)
      | (Some cart, w1) \<Rightarrow>
     (case new_CustomerData e (strip customer_name') (strip customer_lastname')
             (lower (strip customer_email')) customer_whatsapp of
        None \<Rightarrow> (OrderValidationError CustomerDataInvalid, w1)
      | Some cust \<Rightarrow>
     (case new_DeliveryMode (upper delivery_mode) of
        None \<Rightarrow> (OrderValidationError DeliveryModeInvalid, w1)
      | Some m \<Rightarrow>
          if m = DELIVERY \<and> \<not> truthy delivery_address
          then (OrderValidationError AddressMissing, w1)
          else if m = DELIVERY \<and> \<not> truthy delivery_zone
          then (OrderValidationError ZoneMissing, w1)
          else
            (let deliv = \<lparr>mode = m, address = delivery_address,
                          zone = (if m = DELIVERY then delivery_zone else None),
                          delivery_notes = None\<rparr>;
                 lookup = (m = DELIVERY \<and> truthy delivery_zone);
                 shipping_cost_result = PyDict (get_shipping_cost w1 (text_of delivery_zone))
             in if lookup \<and> shipping_cost_result = PyNone
                then (OrderValidationError ZoneNotCovered, w1)
                else
                  (let ship = (if lookup then shipping_cost_result else PyDecimal 0);
                       w2 = snd (create_customer e vet (strip customer_name')
                                   (strip customer_lastname') (lower (strip customer_email'))
                                   customer_whatsapp delivery_address w1);
                       oid = ''ORD-'' @ upper (take 8 (order_uuid_hex e));
                       sub = cart_total_amount cart
                   in (case decimal_add sub ship of
                         None \<Rightarrow> (OrderError, w2)
                       | Some total_amount' \<Rightarrow>
                      (case new_Order e oid vet cust deliv cart sub ship total_amount' of
                         None \<Rightarrow> (OrderError, w2)
                       | Some ord \<Rightarrow>
                      (case create_order_record ord w2 of
                         (False, w3) \<Rightarrow> (OrderError, w3)
                       | (True, w3) \<Rightarrow>
                           (let w4 = snd (log_event e ORDER_CREATED (Some oid) (Some vet) w3);
                                w5 = clear_cart session_id w4;
                                w6 = send_order_created_notification oid w5
                            in (OrderCreated oid, w6))))))))))"

text \<open>
  The values of the \<^verbatim>\<open>status\<close> key of the dictionary \<^verbatim>\<open>cancel_order\<close> returns:
  \<^verbatim>\<open>cancelled\<close> (with the old status and whether the customer was notified),
  \<^verbatim>\<open>not_found\<close>, \<^verbatim>\<open>already_cancelled\<close>, \<^verbatim>\<open>cannot_cancel\<close> and \<^verbatim>\<open>error\<close>.
\<close>

datatype cancel_result =
    Cancelled OrderStatus bool
  | CancelNotFound
  | AlreadyCancelled
  | CannotCancel
  | CancelError

definition send_order_status_to_customer ::
  "env \<Rightarrow> string \<Rightarrow> string \<Rightarrow> world \<Rightarrow> bool \<times> world" where
  "send_order_status_to_customer e customer_phone oid w =
     (whatsapp_sent e, w\<lparr>outbox := outbox w @ [OrderStatusToCustomer customer_phone oid]\<rparr>)"

definition cancel_order :: "env \<Rightarrow> string \<Rightarrow> bool \<Rightarrow> world \<Rightarrow> cancel_result \<times> world" where
  "cancel_order e oid notify_customer w =
     (case get_order_by_id w oid of
        None \<Rightarrow> (CancelNotFound, w)
      | Some ord \<Rightarrow>
          (let old_status = status ord
           in if old_status = CANCELLED then (AlreadyCancelled, w)
              else if old_status \<in> set [DELIVERED, COMPLETED] then (CannotCancel, w)
              else
                (case update_order_status e oid CANCELLED w of
                   (False, w1) \<Rightarrow> (CancelError, w1)
                 | (True, w1) \<Rightarrow>
                     (let w2 = snd (log_event e ORDER_CANCELLED (Some oid)
                                      (Some (vet_id ord)) w1)
                      in if notify_customer
                         then (case send_order_status_to_customer e
                                      (whatsapp_e164 (customer ord)) oid w2 of
                                 (notified, w3) \<Rightarrow> (Cancelled old_status notified, w3))
                         else (Cancelled old_status False, w2)))))"

text \<open>
  The values of the \<^verbatim>\<open>status\<close> key of the dictionary \<^verbatim>\<open>set_payment_method\<close> returns:
  \<^verbatim>\<open>updated\<close> (with the method and the new status), \<^verbatim>\<open>invalid_method\<close>, \<^verbatim>\<open>not_found\<close>
  and \<^verbatim>\<open>error\<close>.
\<close>

datatype payment_method_result =
    MethodUpdated string OrderStatus
  | MethodInvalid
  | MethodNotFound
  | MethodError

definition set_payment_method ::
  "env \<Rightarrow> string \<Rightarrow> string \<Rightarrow> world \<Rightarrow> payment_method_result \<times> world" where
  "set_payment_method e oid payment_method' w =
     (let method_upper = upper payment_method'
      in if method_upper \<notin> set [''MERCADOPAGO'', ''AT_VET''] then (MethodInvalid, w)
         else
           (case get_order_by_id w oid of
              None \<Rightarrow> (MethodNotFound, w)
            | Some ord \<Rightarrow>
                (let new_status = (if method_upper = ''MERCADOPAGO'' then CREATED
                                   else PAYMENT_AT_VET)
                 in (case set_order_payment_method e oid
                            (if method_upper = ''MERCADOPAGO'' then MERCADOPAGO else AT_VET)
                            new_status w of
                       (False, w1) \<Rightarrow> (MethodError, w1)
                     | (True, w1) \<Rightarrow>
                         (MethodUpdated method_upper new_status,
                          snd (log_event e ORDER_STATUS_CHANGED (Some oid)
                                 (Some (vet_id ord)) w1))))))"

section \<open>OAuth authorisation (app/tools/oauth_mp.py, app/main.py)\<close>

text \<open>
  \<^verbatim>\<open>complete_mp_oauth\<close> is the one place that stores a token for a merchant who has none,
  and the callback route of \<^verbatim>\<open>main.py\<close> is its one caller: the merchant id is the part of
  the \<^verbatim>\<open>state\<close> parameter before the first bar. Its answers are \<^verbatim>\<open>success\<close> (with the
  processor's user id), \<^verbatim>\<open>invalid_code\<close> and \<^verbatim>\<open>error\<close>; a field missing from the
  processor's answer raises \<^verbatim>\<open>KeyError\<close> and an expiry out of range \<^verbatim>\<open>OverflowError\<close>,
  both answered \<^verbatim>\<open>error\<close>. The route answers with an HTTP status.
\<close>

definition update_vet_mp_status ::
  "string \<Rightarrow> bool \<Rightarrow> string option \<Rightarrow> world \<Rightarrow> bool \<times> world" where
  "update_vet_mp_status vet mp_connected user_id w =
     (let r = update_first (\<lambda>v. vet_vet_id v = vet)
                (\<lambda>v. v\<lparr>vet_mp_connected := mp_connected,
                        vet_mp_user_id :=
                          (if truthy user_id then user_id else vet_mp_user_id v)\<rparr>)
                (vets_sheet w)
      in (fst r, w\<lparr>vets_sheet := snd r\<rparr>))"

datatype oauth_result =
    OAuthSuccess string
  | OAuthInvalidCode
  | OAuthError

definition exchange_request :: "env \<Rightarrow> string \<Rightarrow> world \<Rightarrow> token_response option \<times> world" where
  "exchange_request e code w =
     (exchange_code_for_tokens e code, w\<lparr>mp_requests := mp_requests w @ [ExchangeCode code]\<rparr>)"

definition complete_mp_oauth :: "env \<Rightarrow> string \<Rightarrow> string \<Rightarrow> world \<Rightarrow> oauth_result \<times> world" where
  "complete_mp_oauth e vet code w =
     (if \<not> has_mp e then (OAuthError, w)
      else
        (case exchange_request e code w of
           (None, w1) \<Rightarrow> (OAuthInvalidCode, w1)
         | (Some token_data, w1) \<Rightarrow>
        (case resp_access_token token_data of
           None \<Rightarrow> (OAuthError, w1)
         | Some new_access \<Rightarrow>
        (case resp_refresh_token token_data of
           None \<Rightarrow> (OAuthError, w1)
         | Some new_refresh \<Rightarrow>
        (case resp_expires_in token_data of
           None \<Rightarrow> (OAuthError, w1)
         | Some expires_in \<Rightarrow>
        (case datetime_add (utcnow e) (seconds expires_in) of
           None \<Rightarrow> (OAuthError, w1)
         | Some new_expires_at \<Rightarrow>
        (case resp_user_id token_data of
           None \<Rightarrow> (OAuthError, w1)
         | Some user_id \<Rightarrow>
             (let tokens = \<lparr>token_vet_id = vet, access_token = new_access,
                             refresh_token = new_refresh, expires_at = new_expires_at,
                             mp_user_id = user_id, token_updated_at = utcnow e\<rparr>
              in (case save_mp_tokens e tokens w1 of
                    (False, w2) \<Rightarrow> (OAuthError, w2)
                  | (True, w2) \<Rightarrow>
                      (OAuthSuccess user_id,
                       snd (update_vet_mp_status vet True (Some user_id) w2)))))))))))"

definition mp_oauth_callback ::
  "env \<Rightarrow> string option \<Rightarrow> string option \<Rightarrow> string option \<Rightarrow> world \<Rightarrow> nat \<times> world" where
  "mp_oauth_callback e code state error w =
     (if truthy error then (400, w)
      else if \<not> truthy code \<or> \<not> truthy state then (400, w)
      else
        (case split CHR ''|'' (text_of state) of
           [] \<Rightarrow> (400, w)
         | vet # parts \<Rightarrow>
             (case complete_mp_oauth e vet (text_of code) w of
                (OAuthSuccess user_id, w1) \<Rightarrow> (200, w1)
              | (OAuthInvalidCode, w1) \<Rightarrow> (400, w1)
              | (OAuthError, w1) \<Rightarrow> (400, w1))))"

section \<open>Payment links (app/tools/payments.py)\<close>

text \<open>
  The values of the \<^verbatim>\<open>status\<close> key of the dictionary \<^verbatim>\<open>create_payment_link\<close> returns:
  \<^verbatim>\<open>success\<close> (with the payment URL, the preference id and the external reference),
  \<^verbatim>\<open>mp_not_connected\<close>, \<^verbatim>\<open>order_not_found\<close> and \<^verbatim>\<open>error\<close>. A preference without an
  \<^verbatim>\<open>id\<close> raises \<^verbatim>\<open>KeyError\<close> at \<^verbatim>\<open>preference["id"]\<close>, before the order is written.
\<close>

datatype payment_link_result =
    LinkSuccess "string option" string string
  | MpNotConnected
  | LinkOrderNotFound
  | LinkError

definition preference_request ::
  "env \<Rightarrow> string \<Rightarrow> Order \<Rightarrow> string \<Rightarrow> string \<Rightarrow> string \<Rightarrow> world
     \<Rightarrow> preference option \<times> world" where
  "preference_request e token ord vname vet ref w =
     (create_mp_preference e token ord vname vet ref,
      w\<lparr>mp_requests := mp_requests w @ [CreatePreference token ref]\<rparr>)"

definition create_payment_link ::
  "env \<Rightarrow> string \<Rightarrow> string \<Rightarrow> world \<Rightarrow> payment_link_result \<times> world" where
  "create_payment_link e vet oid w =
     (case ensure_valid_mp_token e vet w of
        (TokenNotConnected, w1) \<Rightarrow> (MpNotConnected, w1)
      | (TokenRefreshFailed, w1) \<Rightarrow> (LinkError, w1)
      | (TokenError, w1) \<Rightarrow> (LinkError, w1)
      | (TokenSuccess token, w1) \<Rightarrow>
          (case get_order_by_id w1 oid of
             None \<Rightarrow> (LinkOrderNotFound, w1)
           | Some ord \<Rightarrow>
               if vet_id ord \<noteq> vet then (LinkError, w1)
               else
                 (let vname = (case get_vet_by_id w1 vet of
                                 Some v \<Rightarrow> vet_name v
                               | None \<Rightarrow> vet);
                      ref = ''DTV|'' @ vet @ ''|'' @ oid
                  in (case preference_request e token ord vname vet ref w1 of
                        (None, w2) \<Rightarrow> (LinkError, w2)
                      | (Some pref, w2) \<Rightarrow>
                          (case pref_id pref of
                             None \<Rightarrow> (LinkError, w2)
                           | Some preference_id \<Rightarrow>
                               (let w3 = snd (update_order_preference e oid preference_id ref w2);
                                    payment_url = (if truthy (init_point pref)
                                                   then init_point pref
                                                   else sandbox_init_point pref)
                                in (LinkSuccess payment_url preference_id ref, w3)))))))"

section \<open>Processor status mapping (app/webhooks/mercadopago.py)\<close>

text \<open>
  \<^verbatim>\<open>mapping.get(mp_status, default)\<close> on a dict literal is a lookup in the association
  list of the literal, with the default for a missing key. A parameter whose source name
  is also the name of a record field is written with a prime.
\<close>

definition order_status_mapping :: "(string \<times> OrderStatus) list" where
  "order_status_mapping =
     [(''approved'', PAYMENT_APPROVED),
      (''pending'', PAYMENT_PENDING_MP),
      (''in_process'', PAYMENT_PENDING_MP),
      (''rejected'', PAYMENT_REJECTED),
      (''cancelled'', CANCELLED),
      (''refunded'', CANCELLED)]"

definition map_mp_status_to_order_status :: "string \<Rightarrow> OrderStatus" where
  "map_mp_status_to_order_status mp_status' =
     (case map_of order_status_mapping mp_status' of
        Some v \<Rightarrow> v
      | None \<Rightarrow> PAYMENT_PENDING_MP)"

definition mp_status_mapping :: "(string \<times> MPPaymentStatus) list" where
  "mp_status_mapping =
     [(''approved'', MP_APPROVED),
      (''pending'', MP_PENDING),
      (''in_process'', MP_IN_PROCESS),
      (''rejected'', MP_REJECTED),
      (''cancelled'', MP_CANCELLED),
      (''refunded'', MP_REFUNDED)]"

definition map_mp_status :: "string \<Rightarrow> MPPaymentStatus" where
  "map_mp_status mp_status' =
     (case map_of mp_status_mapping mp_status' of
        Some v \<Rightarrow> v
      | None \<Rightarrow> MP_PENDING)"

section \<open>Webhooks (app/webhooks/mercadopago.py)\<close>

text \<open>
  The body of a notification either fails to parse into \<^verbatim>\<open>MPWebhookPayload\<close> or gives
  its \<^verbatim>\<open>type\<close>, its \<^verbatim>\<open>action\<close> and \<^verbatim>\<open>str(data.get("id", ""))\<close>, which is the text of
  the id, or nothing when \<^verbatim>\<open>data\<close> has no \<^verbatim>\<open>id\<close>. The answers are the values of the
  \<^verbatim>\<open>status\<close> key: \<^verbatim>\<open>ignored\<close> (with the reason, empty when the source gives none),
  \<^verbatim>\<open>duplicate\<close>, \<^verbatim>\<open>received\<close>, \<^verbatim>\<open>processed\<close> (payment id, order id, processor
  status) and \<^verbatim>\<open>error\<close> (with the reason). Both routes share the module-level set
  \<^verbatim>\<open>_processed_notifications\<close>.
\<close>

record MPWebhookPayload =
  payload_type :: string
  payload_action :: string
  payload_data_id :: "string option"

datatype request_body = InvalidBody | Body MPWebhookPayload

datatype webhook_response =
    Ignored string
  | Duplicate
  | Received string
  | Processed string string string
  | WebhookError string

definition process_payment_notification :: "string \<Rightarrow> world \<Rightarrow> webhook_response \<times> world" where
  "process_payment_notification payment_id w = (Received payment_id, w)"

definition mercadopago_webhook :: "request_body \<Rightarrow> world \<Rightarrow> webhook_response \<times> world" where
  "mercadopago_webhook body w =
     (case body of
        InvalidBody \<Rightarrow> (WebhookError ''exception'', w)
      | Body p \<Rightarrow>
          if payload_type p \<noteq> ''payment'' then (Ignored ''not_payment'', w)
          else
            (let payment_id = text_of (payload_data_id p)
             in if payment_id = [] then (Ignored ''no_payment_id'', w)
                else
                  (let idempotency_key = payload_action p @ '':'' @ payment_id
                   in if idempotency_key |\<in>| processed_notifications w then (Duplicate, w)
                      else
                        (let w1 = w\<lparr>processed_notifications :=
                                      finsert idempotency_key (processed_notifications w)\<rparr>;
                             w2 = (if fcard (processed_notifications w1) > 10000
                                   then w1\<lparr>processed_notifications := {||}\<rparr>
                                   else w1)
                         in process_payment_notification payment_id w2))))"

definition payment_request ::
  "env \<Rightarrow> string \<Rightarrow> string \<Rightarrow> world \<Rightarrow> payment_response \<times> world" where
  "payment_request e token payment_id w =
     (get_mp_payment e token payment_id,
      w\<lparr>mp_requests := mp_requests w @ [GetPayment token payment_id]\<rparr>)"

definition handle_approved_payment :: "string \<Rightarrow> string \<Rightarrow> string \<Rightarrow> world \<Rightarrow> world" where
  "handle_approved_payment vet oid payment_id w =
     (case get_vet_by_id w vet of
        None \<Rightarrow> w
      | Some v \<Rightarrow>
          (case get_order_by_external_reference w (''DTV|'' @ vet @ ''|'' @ oid) of
             None \<Rightarrow> w
           | Some ord \<Rightarrow>
               w\<lparr>outbox := outbox w @
                   [PaymentConfirmationToVet (vet_whatsapp_e164 v) oid,
                    OrderStatusToCustomer (whatsapp_e164 (customer ord)) oid,
                    PaymentApprovedEmail oid payment_id]\<rparr>))"

definition process_payment_with_vet ::
  "env \<Rightarrow> string \<Rightarrow> string \<Rightarrow> world \<Rightarrow> webhook_response \<times> world" where
  "process_payment_with_vet e vet payment_id w =
     (case ensure_valid_mp_token e vet w of
        (TokenNotConnected, w1) \<Rightarrow> (WebhookError ''no_token'', w1)
      | (TokenRefreshFailed, w1) \<Rightarrow> (WebhookError ''no_token'', w1)
      | (TokenError, w1) \<Rightarrow> (WebhookError ''no_token'', w1)
      | (TokenSuccess token, w1) \<Rightarrow>
          (case payment_request e token payment_id w1 of
             (RequestRaises, w2) \<Rightarrow> (WebhookError ''exception'', w2)
           | (HttpStatus code, w2) \<Rightarrow> (WebhookError ''mp_api_error'', w2)
           | (HttpOk payment, w2) \<Rightarrow>
               (let ref = pay_external_reference payment;
                    mp_status' = pay_status payment
                in if ref = [] \<or> take 4 ref \<noteq> ''DTV|''
                   then (Ignored ''invalid_reference'', w2)
                   else
                     (case split CHR ''|'' ref of
                        [tag, ref_vet_id, oid] \<Rightarrow>
                          if ref_vet_id \<noteq> vet then (WebhookError ''vet_mismatch'', w2)
                          else
                            (let order_status = map_mp_status_to_order_status mp_status';
                                 mp_payment_status = map_mp_status mp_status';
                                 w3 = snd (update_order_payment_status e oid payment_id
                                             mp_payment_status order_status w2);
                                 w4 = snd (log_event e PAYMENT_RECEIVED (Some oid) (Some vet) w3);
                                 w5 = (if mp_status' = ''approved''
                                       then handle_approved_payment vet oid payment_id w4
                                       else w4)
                             in (Processed payment_id oid mp_status', w5))
                      | _ \<Rightarrow> (Ignored ''invalid_reference_format'', w2)))))"

definition mercadopago_webhook_v2 ::
  "env \<Rightarrow> string \<Rightarrow> request_body \<Rightarrow> world \<Rightarrow> webhook_response \<times> world" where
  "mercadopago_webhook_v2 e vet body w =
     (case body of
        InvalidBody \<Rightarrow> (WebhookError ''exception'', w)
      | Body p \<Rightarrow>
          if payload_type p \<noteq> ''payment'' then (Ignored [], w)
          else
            (let payment_id = text_of (payload_data_id p)
             in if payment_id = [] then (Ignored [], w)
                else
                  (let idempotency_key = vet @ '':'' @ payload_action p @ '':'' @ payment_id
                   in if idempotency_key |\<in>| processed_notifications w then (Duplicate, w)
                      else
                        process_payment_with_vet e vet payment_id
                          (w\<lparr>processed_notifications :=
                               finsert idempotency_key (processed_notifications w)\<rparr>))))"

text \<open>
  A history of the process is a list of calls to the two routes, handled one after the
  other.
\<close>

datatype call =
    WebhookV1 request_body
  | WebhookV2 env string request_body

fun handle :: "call \<Rightarrow> world \<Rightarrow> webhook_response \<times> world" where
  "handle (WebhookV1 body) w = mercadopago_webhook body w"
| "handle (WebhookV2 e vet body) w = mercadopago_webhook_v2 e vet body w"

fun run :: "call list \<Rightarrow> world \<Rightarrow> world" where
  "run [] w = w"
| "run (c # cs) w = run cs (snd (handle c w))"

section \<open>States the code can reach\<close>

text \<open>
  A process starts with an empty vault, no orders and nothing sent; the worksheets of
  merchants, customers and shipping rates are whatever the operators have entered. From
  there every state comes from a call to one of the operations that write orders or
  tokens: the tools of the agent (\<open>create_order\<close>, \<open>cancel_order\<close>,
  \<open>set_payment_method\<close>, \<open>create_payment_link\<close>, and \<open>ensure_valid_mp_token\<close> for the tools
  that only need a token), the OAuth callback, the two webhook routes, and the distributor
  writing the status of an order. Whatever else happens (the cart and customer tools, the
  notifiers, edits of the other worksheets) leaves orders and vault as they are. The ids
  of new orders come from \<^verbatim>\<open>uuid4().hex\<close>. The relation allows more than the code does,
  never less.
\<close>

definition initial :: "world \<Rightarrow> bool" where
  "initial w =
     (processed_notifications w = {||} \<and> carts w = Map.empty
      \<and> token_store w \<in> {LocalTokenStore Map.empty, SecretManagerTokenStore Map.empty}
      \<and> orders_sheet w = [] \<and> events_sheet w = [] \<and> mp_requests w = [] \<and> outbox w = [])"

inductive reachable :: "world \<Rightarrow> bool" where
  start: "initial w \<Longrightarrow> reachable w"
| order_created:
    "reachable w \<Longrightarrow> hex_string (order_uuid_hex e)
       \<Longrightarrow> reachable (snd (create_order e session vet n l m p dm da dz w))"
| order_cancelled:
    "reachable w \<Longrightarrow> reachable (snd (cancel_order e oid notify w))"
| payment_method_set:
    "reachable w \<Longrightarrow> reachable (snd (set_payment_method e oid payment_method' w))"
| link_created:
    "reachable w \<Longrightarrow> reachable (snd (create_payment_link e vet oid w))"
| token_checked:
    "reachable w \<Longrightarrow> reachable (snd (ensure_valid_mp_token e vet w))"
| authorised:
    "reachable w \<Longrightarrow> reachable (snd (mp_oauth_callback e code state error w))"
| notified:
    "reachable w \<Longrightarrow> reachable (snd (mercadopago_webhook body w))"
| notified_v2:
    "reachable w \<Longrightarrow> reachable (snd (mercadopago_webhook_v2 e vet body w))"
| fulfilled:
    "reachable w \<Longrightarrow> reachable (snd (update_order_status e oid st w))"
| elsewhere:
    "reachable w \<Longrightarrow> orders_sheet w' = orders_sheet w \<Longrightarrow> token_store w' = token_store w
       \<Longrightarrow> reachable w'"

text \<open>
  What holds of every such state: a token is stored only under a merchant id without a
  bar, and every order has an id without a bar and a reference that is absent or
  well formed (\<open>reference_ok\<close> below is the shape the specification gives: three parts
  between bars, the tag, the merchant and the order).
\<close>

definition reference_ok :: "Order \<Rightarrow> bool" where
  "reference_ok ord =
     (case external_reference ord of
        None \<Rightarrow> True
      | Some ref \<Rightarrow> split CHR ''|'' ref = [''DTV'', vet_id ord, order_id ord])"

definition vault_ok :: "TokenStore \<Rightarrow> bool" where
  "vault_ok store = (\<forall>vet. get_token store vet \<noteq> None \<longrightarrow> CHR ''|'' \<notin> set vet)"

definition orders_ok :: "Order list \<Rightarrow> bool" where
  "orders_ok rows =
     (\<forall>ord \<in> set rows. CHR ''|'' \<notin> set (order_id ord) \<and> reference_ok ord)"

definition same_keys :: "Order list \<Rightarrow> Order list \<Rightarrow> bool" where
  "same_keys rows rows' =
     list_all2 (\<lambda>a b. order_id b = order_id a \<and> vet_id b = vet_id a
                        \<and> external_reference b = external_reference a) rows rows'"

section \<open>Sample data\<close>

text \<open>
  A clinic with a stored token, one order and a cart, and an environment in which the
  processor answers every request; the closed theorems below are stated on them.
\<close>

definition vet1 :: VetContext where
  "vet1 = \<lparr>vet_vet_id = ''VET001'', vet_name = ''Clinica Sur'',
           vet_whatsapp_e164 = ''+5491155550001'', vet_active = True,
           vet_mp_connected = True, vet_mp_user_id = Some ''777''\<rparr>"

definition token1 :: StoredToken where
  "token1 = \<lparr>token_vet_id = ''VET001'', access_token = ''AT-1'', refresh_token = ''RT-1'',
             expires_at = minutes 60, mp_user_id = ''777'', token_updated_at = 0\<rparr>"

definition item_a :: CartItem where
  "item_a = \<lparr>product_sku = ''A'', product_name = ''Alimento'', quantity = 2,
             unit_price = 100, item_currency = ''ARS''\<rparr>"

definition order1 :: Order where
  "order1 = \<lparr>order_id = ''ORD-0000000A'', vet_id = ''VET001'',
             customer = \<lparr>name = ''Ana'', lastname = ''Paz'', email = ''ana@example.com'',
                         whatsapp_e164 = ''+5491155550002''\<rparr>,
             delivery = \<lparr>mode = PICKUP, address = None, zone = None, delivery_notes = None\<rparr>,
             items = [item_a], subtotal = 200, shipping_cost = 0, total_amount = 200,
             currency = ''ARS'', status = CREATED, payment_method = None,
             mp_preference_id = None, mp_payment_id = None, mp_status = None,
             external_reference = None, created_at = 0, updated_at = 0\<rparr>"

definition world1 :: world where
  "world1 = \<lparr>processed_notifications = {||},
             carts = [''s1'' \<mapsto> \<lparr>cart_items = [item_a], cart_currency = ''ARS''\<rparr>],
             token_store = LocalTokenStore [''VET001'' \<mapsto> token1],
             vets_sheet = [vet1],
             customers_sheet = [],
             orders_sheet = [order1],
             events_sheet = [],
             shipping_sheet = [(''CABA'', 1500)],
             mp_requests = [],
             outbox = []\<rparr>"

definition refresh1 :: "string \<Rightarrow> token_response option" where
  "refresh1 rt = Some \<lparr>resp_access_token = Some ''AT-2'', resp_refresh_token = None,
                       resp_expires_in = Some 21600, resp_user_id = None\<rparr>"

definition preference1 :: "string \<Rightarrow> Order \<Rightarrow> string \<Rightarrow> string \<Rightarrow> string \<Rightarrow> preference option" where
  "preference1 token ord vname vet ref =
     Some \<lparr>pref_id = Some ''PREF-1'', init_point = Some ''https://mp.example/checkout'',
           sandbox_init_point = None\<rparr>"

definition payment1 :: "string \<Rightarrow> string \<Rightarrow> payment_response" where
  "payment1 token payment_id =
     HttpOk \<lparr>pay_external_reference = ''DTV|VET001|ORD-0000000A'', pay_status = ''approved'',
             pay_status_detail = ''accredited''\<rparr>"

definition phone1 :: "string \<Rightarrow> string option" where
  "phone1 v = (if v = [] then None else Some v)"

definition exchange1 :: "string \<Rightarrow> token_response option" where
  "exchange1 code = Some \<lparr>resp_access_token = Some ''AT-1'', resp_refresh_token = Some ''RT-1'',
                          resp_expires_in = Some 3600, resp_user_id = Some ''777''\<rparr>"

definition env1 :: env where
  "env1 = \<lparr>clock = 0, order_uuid_hex = ''0123456789abcdef0123456789abcdef'',
           customer_uuid_hex = ''fedcba9876543210fedcba9876543210'',
           has_mp = True, token_store_writable = True,
           exchange_code_for_tokens = exchange1,
           refresh_mp_token = refresh1, create_mp_preference = preference1,
           get_mp_payment = payment1, parse_phone = phone1, whatsapp_sent = True\<rparr>"

definition env_late :: env where
  "env_late = env1\<lparr>clock := minutes 58\<rparr>"

definition world_delivered :: world where
  "world_delivered = world1\<lparr>orders_sheet := [order1\<lparr>status := DELIVERED\<rparr>]\<rparr>"

definition no_preference :: "string \<Rightarrow> Order \<Rightarrow> string \<Rightarrow> string \<Rightarrow> string \<Rightarrow> preference option" where
  "no_preference token ord vname vet ref = None"

definition env_down :: env where
  "env_down = env1\<lparr>create_mp_preference := no_preference\<rparr>"

definition world_unconnected :: world where
  "world_unconnected = world1\<lparr>token_store := LocalTokenStore Map.empty\<rparr>"

definition payment_down :: "string \<Rightarrow> string \<Rightarrow> payment_response" where
  "payment_down token payment_id = HttpStatus 500"

definition env_api_down :: env where
  "env_api_down = env1\<lparr>get_mp_payment := payment_down\<rparr>"

definition order2 :: Order where
  "order2 = order1\<lparr>status := PAYMENT_PENDING_MP, payment_method := Some MERCADOPAGO,
                    mp_preference_id := Some ''PREF-1'',
                    external_reference := Some ''DTV|VET001|ORD-0000000A''\<rparr>"

definition world2 :: world where
  "world2 = world1\<lparr>orders_sheet := [order2]\<rparr>"

definition notification1 :: request_body where
  "notification1 = Body \<lparr>payload_type = ''payment'', payload_action = ''payment.updated'',
                         payload_data_id = Some ''123''\<rparr>"

definition notification_other :: request_body where
  "notification_other = Body \<lparr>payload_type = ''merchant_order'',
                              payload_action = ''payment.updated'',
                              payload_data_id = Some ''123''\<rparr>"

text \<open>
  A notification for the generic route with a payment id of its own, and a history of
  \<open>n\<close> such notifications.
\<close>

definition filler_key :: "nat \<Rightarrow> string" where
  "filler_key i = ''payment.created:'' @ replicate (Suc i) CHR ''7''"

definition filler :: "nat \<Rightarrow> request_body" where
  "filler i = Body \<lparr>payload_type = ''payment'', payload_action = ''payment.created'',
                    payload_data_id = Some (replicate (Suc i) CHR ''7'')\<rparr>"

primrec fillers :: "nat \<Rightarrow> call list" where
  "fillers 0 = []"
| "fillers (Suc n) = fillers n @ [WebhookV1 (filler n)]"

fun merchant_scoped :: "call \<Rightarrow> bool" where
  "merchant_scoped (WebhookV1 body) = False"
| "merchant_scoped (WebhookV2 e vet body) = True"

text \<open>
  A history from the start: the clinic authorises the application, fills a cart, orders
  for pick-up and asks for a payment link.
\<close>

definition world0 :: world where
  "world0 = \<lparr>processed_notifications = {||},
             carts = Map.empty,
             token_store = LocalTokenStore Map.empty,
             vets_sheet = [vet1],
             customers_sheet = [],
             orders_sheet = [],
             events_sheet = [],
             shipping_sheet = [(''CABA'', 1500)],
             mp_requests = [],
             outbox = []\<rparr>"

definition world_a :: world where
  "world_a = snd (mp_oauth_callback env1 (Some ''TG-1'') (Some ''VET001|1700000000'') None world0)"

definition world_b :: world where
  "world_b = world_a\<lparr>carts := [''s1'' \<mapsto> \<lparr>cart_items = [item_a], cart_currency = ''ARS''\<rparr>]\<rparr>"

definition world_c :: world where
  "world_c = snd (create_order env1 ''s1'' ''VET001'' ''Ana'' ''Paz'' ''ana@example.com''
                    ''+5491155550002'' ''PICKUP'' None None world_b)"

definition world_d :: world where
  "world_d = snd (create_payment_link env1 ''VET001'' ''ORD-01234567'' world_c)"

definition order_c :: Order where
  "order_c = order1\<lparr>order_id := ''ORD-01234567''\<rparr>"

definition order_d :: Order where
  "order_d = order_c\<lparr>mp_preference_id := Some ''PREF-1'',
                     external_reference := Some ''DTV|VET001|ORD-01234567'',
                     payment_method := Some MERCADOPAGO, status := PAYMENT_PENDING_MP\<rparr>"

section \<open>Theorems\<close>

subsection \<open>Status mapping\<close>

text \<open>
  C1. The processor-status to order-status mapping is total: the six listed processor
  statuses map to the listed order statuses, and every other string maps to
  \<open>PAYMENT_PENDING_MP\<close>.
\<close>

theorem map_mp_status_to_order_status_table:
  "map_mp_status_to_order_status ''approved'' = PAYMENT_APPROVED
   \<and> map_mp_status_to_order_status ''pending'' = PAYMENT_PENDING_MP
   \<and> map_mp_status_to_order_status ''in_process'' = PAYMENT_PENDING_MP
   \<and> map_mp_status_to_order_status ''rejected'' = PAYMENT_REJECTED
   \<and> map_mp_status_to_order_status ''cancelled'' = CANCELLED
   \<and> map_mp_status_to_order_status ''refunded'' = CANCELLED
   \<and> (\<forall>s. s \<notin> {''approved'', ''pending'', ''in_process'', ''rejected'',
                 ''cancelled'', ''refunded''}
          \<longrightarrow> map_mp_status_to_order_status s = PAYMENT_PENDING_MP)"
  by (simp add: map_mp_status_to_order_status_def order_status_mapping_def)

theorem map_mp_status_to_order_status_table_witness:
  "''charged_back'' \<notin> {''approved'', ''pending'', ''in_process'', ''rejected'',
                        ''cancelled'', ''refunded''}
   \<and> map_mp_status_to_order_status ''charged_back'' = PAYMENT_PENDING_MP
   \<and> map_mp_status_to_order_status ''approved'' = PAYMENT_APPROVED"
  using map_mp_status_to_order_status_table by simp

subsection \<open>Clock and dates\<close>

lemma utcnow_range: "datetime_min \<le> utcnow e" "utcnow e \<le> datetime_max"
  by (simp_all add: utcnow_def datetime_min_def datetime_max_def)

lemma utcnow_clock:
  "datetime_min \<le> clock e \<Longrightarrow> clock e \<le> datetime_max \<Longrightarrow> utcnow e = clock e"
  by (simp add: utcnow_def)

lemma utcnow_env1 [simp]: "utcnow env1 = 0"
  by (simp add: utcnow_def env1_def datetime_min_def datetime_max_def)

lemma utcnow_env_down [simp]: "utcnow env_down = 0" "utcnow env_api_down = 0"
  by (simp_all add: utcnow_def env_down_def env_api_down_def env1_def
        datetime_min_def datetime_max_def)

lemma utcnow_env_late [simp]: "utcnow env_late = minutes 58"
  by (simp add: utcnow_def env_late_def minutes_def datetime_min_def datetime_max_def)

subsection \<open>Token vault\<close>


text \<open>
  C7. For a merchant whose stored token expires more than five minutes after the current
  time, \<open>ensure_valid_mp_token\<close> returns the stored access token and changes nothing:
  the token store is as it was and no request went to the processor, so no refresh
  exchange was made.
\<close>

theorem ensure_valid_fresh_token:
  assumes "get_mp_tokens w vet = Some tokens"
      and "utcnow e + minutes 5 < expires_at tokens"
  shows "ensure_valid_mp_token e vet w = (TokenSuccess (access_token tokens), w)"
proof -
  have "datetime_min \<le> expires_at tokens - minutes 5"
    using assms(2) utcnow_range(1) [of e] by simp
  then have "datetime_sub (expires_at tokens) (minutes 5) = Some (expires_at tokens - minutes 5)"
    by (simp add: datetime_sub_def)
  then show ?thesis
    using assms by (simp add: ensure_valid_mp_token_def)
qed

theorem ensure_valid_fresh_token_witness:
  "get_mp_tokens world1 ''VET001'' = Some token1
   \<and> utcnow env1 + minutes 5 < expires_at token1
   \<and> ensure_valid_mp_token env1 ''VET001'' world1 = (TokenSuccess ''AT-1'', world1)"
proof -
  have a: "get_mp_tokens world1 ''VET001'' = Some token1"
    by (simp add: get_mp_tokens_def world1_def)
  have b: "utcnow env1 + minutes 5 < expires_at token1"
    by (simp add: token1_def minutes_def)
  show ?thesis using a b ensure_valid_fresh_token [OF a b] by (simp add: token1_def)
qed



lemma ensure_valid_expiry_overflow:
  assumes "get_mp_tokens w vet = Some tokens"
      and "expires_at tokens \<le> utcnow e + minutes 5"
      and "datetime_min + minutes 5 \<le> expires_at tokens"
      and "refresh_mp_token e (refresh_token tokens) = Some r"
      and "resp_access_token r = Some a"
      and "resp_expires_in r = Some n"
      and "datetime_add (utcnow e) (seconds n) = None"
  shows "fst (ensure_valid_mp_token e vet w) = TokenError
       \<and> token_store (snd (ensure_valid_mp_token e vet w)) = token_store w"
  using assms
  by (simp add: ensure_valid_mp_token_def refresh_request_def datetime_sub_def)

lemma ensure_valid_margin_underflow:
  assumes "get_mp_tokens w vet = Some tokens"
      and "expires_at tokens < datetime_min + minutes 5"
  shows "ensure_valid_mp_token e vet w = (TokenError, w)"
  using assms by (simp add: ensure_valid_mp_token_def datetime_sub_def)

lemma ensure_valid_write_fails:
  assumes "get_mp_tokens w vet = Some tokens"
      and "expires_at tokens \<le> utcnow e + minutes 5"
      and "datetime_min + minutes 5 \<le> expires_at tokens"
      and "refresh_mp_token e (refresh_token tokens) = Some r"
      and "resp_access_token r = Some a"
      and "resp_expires_in r = Some n"
      and "datetime_add (utcnow e) (seconds n) = Some d"
      and "\<not> token_store_writable e"
  shows "fst (ensure_valid_mp_token e vet w) = TokenSuccess a
       \<and> token_store (snd (ensure_valid_mp_token e vet w)) = token_store w"
  using assms
  by (simp add: ensure_valid_mp_token_def refresh_request_def datetime_sub_def
        save_mp_tokens_def)

lemma local_delete_absent:
  "data vet = None \<Longrightarrow> delete_token (LocalTokenStore data) vet = (True, LocalTokenStore data)"
  by (simp add: domIff)

text \<open>
  C9. Deleting the token of a merchant that has none is a success that leaves the vault
  as it was. \<open>LocalTokenStore\<close> does so (\<open>local_delete_absent\<close>);
  \<open>SecretManagerTokenStore\<close> does not: on a service without the merchant's secret the
  client raises, and \<open>delete_token\<close> answers \<open>False\<close>.
\<close>

theorem secret_manager_delete_absent:
  "get_token (SecretManagerTokenStore Map.empty) ''VET001'' = None
   \<and> delete_token (SecretManagerTokenStore Map.empty) ''VET001''
       = (False, SecretManagerTokenStore Map.empty)"
  by (simp add: access_secret_version_def delete_secret_def)

subsection \<open>Cancellation\<close>

lemma update_first_found:
  "find P rows = Some row \<Longrightarrow> fst (update_first P f rows) = True"
  by (induction rows) (auto split: if_splits)

lemma update_first_find:
  "find P rows = Some row \<Longrightarrow> P (f row)
     \<Longrightarrow> find P (snd (update_first P f rows)) = Some (f row)"
  by (induction rows) (auto split: if_splits)

text \<open>
  C2. For an order that exists, \<open>cancel_order\<close> answers \<^verbatim>\<open>already_cancelled\<close> exactly
  when the status is \<open>CANCELLED\<close> and \<^verbatim>\<open>cannot_cancel\<close> exactly when it is \<open>DELIVERED\<close>
  or \<open>COMPLETED\<close>, in both cases without changing anything; for every other status it
  answers \<^verbatim>\<open>cancelled\<close> and the order read back has the status \<open>CANCELLED\<close>.
\<close>

theorem cancel_order_by_status:
  assumes "get_order_by_id w oid = Some ord"
  shows "(fst (cancel_order e oid notify w) = AlreadyCancelled \<longleftrightarrow> status ord = CANCELLED)
       \<and> (fst (cancel_order e oid notify w) = CannotCancel
            \<longleftrightarrow> status ord \<in> {DELIVERED, COMPLETED})
       \<and> (status ord \<in> {CANCELLED, DELIVERED, COMPLETED}
            \<longrightarrow> snd (cancel_order e oid notify w) = w)
       \<and> (status ord \<notin> {CANCELLED, DELIVERED, COMPLETED}
            \<longrightarrow> fst (cancel_order e oid notify w)
                  = Cancelled (status ord) (notify \<and> whatsapp_sent e)
                \<and> get_order_by_id (snd (cancel_order e oid notify w)) oid
                  = Some (ord\<lparr>status := CANCELLED, updated_at := utcnow e\<rparr>))"
proof -
  let ?P = "\<lambda>row. order_id row = oid"
  let ?f = "\<lambda>row. row\<lparr>status := CANCELLED, updated_at := utcnow e\<rparr>"
  have f: "find ?P (orders_sheet w) = Some ord"
    using assms by (simp add: get_order_by_id_def)
  then have p: "?P ord" by (auto simp: find_Some_iff)
  have u1: "fst (update_first ?P ?f (orders_sheet w)) = True"
    using f by (rule update_first_found)
  have u2: "find ?P (snd (update_first ?P ?f (orders_sheet w))) = Some (?f ord)"
    using f p by (intro update_first_find) auto
  show ?thesis
    using assms u1 u2
    by (auto simp: cancel_order_def update_order_status_def log_event_def
          send_order_status_to_customer_def get_order_by_id_def Let_def
          split: prod.splits)
qed

theorem cancel_order_by_status_witness:
  "get_order_by_id world1 ''ORD-0000000A'' = Some order1
   \<and> status order1 \<notin> {CANCELLED, DELIVERED, COMPLETED}
   \<and> fst (cancel_order env1 ''ORD-0000000A'' True world1) = Cancelled CREATED True
   \<and> map_option status
       (get_order_by_id (snd (cancel_order env1 ''ORD-0000000A'' True world1)) ''ORD-0000000A'')
      = Some CANCELLED
   \<and> get_order_by_id world_delivered ''ORD-0000000A'' = Some (order1\<lparr>status := DELIVERED\<rparr>)
   \<and> cancel_order env1 ''ORD-0000000A'' True world_delivered = (CannotCancel, world_delivered)"
proof -
  have a: "get_order_by_id world1 ''ORD-0000000A'' = Some order1"
    by (simp add: get_order_by_id_def world1_def order1_def)
  have b: "status order1 \<notin> {CANCELLED, DELIVERED, COMPLETED}"
    by (simp add: order1_def)
  have c: "get_order_by_id world_delivered ''ORD-0000000A'' = Some (order1\<lparr>status := DELIVERED\<rparr>)"
    by (simp add: get_order_by_id_def world_delivered_def world1_def order1_def)
  have d: "whatsapp_sent env1" by (simp add: env1_def)
  have e: "status order1 = CREATED" by (simp add: order1_def)
  from cancel_order_by_status [OF a, of env1 True] b d e
  have r1: "fst (cancel_order env1 ''ORD-0000000A'' True world1) = Cancelled CREATED True"
    and r2: "get_order_by_id (snd (cancel_order env1 ''ORD-0000000A'' True world1)) ''ORD-0000000A''
               = Some (order1\<lparr>status := CANCELLED, updated_at := utcnow env1\<rparr>)"
    by simp_all
  from cancel_order_by_status [OF c, of env1 True]
  have r3: "fst (cancel_order env1 ''ORD-0000000A'' True world_delivered) = CannotCancel"
    and r4: "snd (cancel_order env1 ''ORD-0000000A'' True world_delivered) = world_delivered"
    by simp_all
  show ?thesis using a b c r1 r2 r3 r4 by (simp add: prod_eq_iff)
qed

subsection \<open>Payment links\<close>

lemma ensure_valid_orders:
  "orders_sheet (snd (ensure_valid_mp_token e vet w)) = orders_sheet w"
  by (simp add: ensure_valid_mp_token_def refresh_request_def save_mp_tokens_def Let_def
        split: option.splits)

lemma create_payment_link_failures:
  "fst (create_payment_link e vet oid w) \<in> {MpNotConnected, LinkOrderNotFound, LinkError}
     \<Longrightarrow> orders_sheet (snd (create_payment_link e vet oid w)) = orders_sheet w"
  using ensure_valid_orders [of e vet w]
  by (auto simp: create_payment_link_def preference_request_def Let_def
        split: prod.splits token_result.splits option.splits if_splits)


text \<open>
  C4. When \<open>create_payment_link\<close> fails, the orders are exactly as before: a merchant
  without a usable token and a processor that refuses the preference both end in a
  failure status, and no failure status goes with a write to the worksheet of orders.
\<close>

theorem create_payment_link_failure_keeps_orders:
  "(fst (ensure_valid_mp_token e vet w) \<in> {TokenNotConnected, TokenRefreshFailed, TokenError}
      \<longrightarrow> fst (create_payment_link e vet oid w) \<in> {MpNotConnected, LinkError})
   \<and> ((\<forall>token ord vname ref. create_mp_preference e token ord vname vet ref = None)
      \<longrightarrow> fst (create_payment_link e vet oid w)
            \<in> {MpNotConnected, LinkOrderNotFound, LinkError})
   \<and> (fst (create_payment_link e vet oid w) \<in> {MpNotConnected, LinkOrderNotFound, LinkError}
      \<longrightarrow> orders_sheet (snd (create_payment_link e vet oid w)) = orders_sheet w)"
proof (intro conjI impI)
  assume "fst (ensure_valid_mp_token e vet w) \<in> {TokenNotConnected, TokenRefreshFailed, TokenError}"
  then show "fst (create_payment_link e vet oid w) \<in> {MpNotConnected, LinkError}"
    by (auto simp: create_payment_link_def split: prod.splits token_result.splits)
next
  assume "\<forall>token ord vname ref. create_mp_preference e token ord vname vet ref = None"
  then show "fst (create_payment_link e vet oid w)
               \<in> {MpNotConnected, LinkOrderNotFound, LinkError}"
    by (auto simp: create_payment_link_def preference_request_def Let_def
          split: prod.splits token_result.splits option.splits)
next
  assume "fst (create_payment_link e vet oid w) \<in> {MpNotConnected, LinkOrderNotFound, LinkError}"
  then show "orders_sheet (snd (create_payment_link e vet oid w)) = orders_sheet w"
    by (rule create_payment_link_failures)
qed

lemma ensure_valid_world1:
  "ensure_valid_mp_token env_down ''VET001'' world1 = (TokenSuccess ''AT-1'', world1)"
  by (simp add: ensure_valid_mp_token_def get_mp_tokens_def world1_def
        token1_def minutes_def datetime_sub_def datetime_min_def)

theorem create_payment_link_failure_keeps_orders_witness:
  "fst (ensure_valid_mp_token env1 ''VET001'' world_unconnected) = TokenNotConnected
   \<and> fst (create_payment_link env1 ''VET001'' ''ORD-0000000A'' world_unconnected)
       = MpNotConnected
   \<and> orders_sheet (snd (create_payment_link env1 ''VET001'' ''ORD-0000000A'' world_unconnected))
       = [order1]
   \<and> fst (create_payment_link env_down ''VET001'' ''ORD-0000000A'' world1) = LinkError
   \<and> orders_sheet (snd (create_payment_link env_down ''VET001'' ''ORD-0000000A'' world1))
       = [order1]"
proof -
  have a: "ensure_valid_mp_token env1 ''VET001'' world_unconnected
             = (TokenNotConnected, world_unconnected)"
    by (simp add: ensure_valid_mp_token_def get_mp_tokens_def world_unconnected_def)
  then have b: "fst (create_payment_link env1 ''VET001'' ''ORD-0000000A'' world_unconnected)
                  = MpNotConnected"
    by (simp add: create_payment_link_def)
  have c: "fst (create_payment_link env_down ''VET001'' ''ORD-0000000A'' world1) = LinkError"
    using ensure_valid_world1
    by (simp add: create_payment_link_def preference_request_def get_order_by_id_def
          world1_def order1_def env_down_def no_preference_def Let_def)
  have d: "orders_sheet world_unconnected = [order1]" "orders_sheet world1 = [order1]"
    by (simp_all add: world_unconnected_def world1_def)
  show ?thesis
    using a b c d
      create_payment_link_failure_keeps_orders [of env1 "''VET001''" world_unconnected "''ORD-0000000A''"]
      create_payment_link_failure_keeps_orders [of env_down "''VET001''" world1 "''ORD-0000000A''"]
    by simp
qed

lemma split_no_separator: "sep \<notin> set s \<Longrightarrow> split sep s = [s]"
  by (induction s) auto

lemma split_at_separator:
  "sep \<notin> set a \<Longrightarrow> split sep (a @ sep # b) = a # split sep b"
  by (induction a) auto

lemma split_reference:
  assumes "CHR ''|'' \<notin> set vet" and "CHR ''|'' \<notin> set oid"
  shows "split CHR ''|'' (''DTV|'' @ vet @ ''|'' @ oid) = [''DTV'', vet, oid]"
proof -
  have "split CHR ''|'' (''DTV'' @ CHR ''|'' # (vet @ CHR ''|'' # oid))
          = ''DTV'' # split CHR ''|'' (vet @ CHR ''|'' # oid)"
    by (rule split_at_separator) simp
  also have "split CHR ''|'' (vet @ CHR ''|'' # oid) = vet # split CHR ''|'' oid"
    using assms(1) by (rule split_at_separator)
  also have "split CHR ''|'' oid = [oid]"
    using assms(2) by (rule split_no_separator)
  finally show ?thesis by simp
qed

lemma update_first_set:
  "row' \<in> set (snd (update_first P f rows))
     \<Longrightarrow> row' \<in> set rows \<or> (\<exists>row. find P rows = Some row \<and> row' = f row)"
  by (induction rows) (auto split: if_splits)

lemma create_payment_link_success:
  assumes "fst (create_payment_link e vet oid w) = LinkSuccess url pid ref"
  shows "\<exists>ord. find (\<lambda>row. order_id row = oid) (orders_sheet w) = Some ord
           \<and> vet_id ord = vet
           \<and> ref = ''DTV|'' @ vet @ ''|'' @ oid
           \<and> orders_sheet (snd (create_payment_link e vet oid w))
               = snd (update_first (\<lambda>row. order_id row = oid)
                        (\<lambda>row. row\<lparr>mp_preference_id := cell pid,
                                    external_reference := cell ref,
                                    payment_method := Some MERCADOPAGO,
                                    status := PAYMENT_PENDING_MP, updated_at := utcnow e\<rparr>)
                        (orders_sheet w))"
  using assms ensure_valid_orders [of e vet w]
  by (auto simp: create_payment_link_def preference_request_def update_order_preference_def
        get_order_by_id_def Let_def
        split: prod.splits token_result.splits option.splits if_splits)


subsection \<open>Order creation\<close>

lemma cart1: "get_cart_for_order ''s1'' world1
   = (Some \<lparr>cart_items = [item_a], cart_currency = ''ARS''\<rparr>, world1)"
  by (simp add: get_cart_for_order_def get_cart_def world1_def is_empty_def)

lemma cust1: "new_CustomerData env1 (strip ''Ana'') (strip ''Paz'') (lower (strip ''ana@example.com''))
     ''+5491155550002''
   = Some \<lparr>name = ''Ana'', lastname = ''Paz'', email = ''ana@example.com'',
                         whatsapp_e164 = ''+5491155550002''\<rparr>"
  by (simp add: new_CustomerData_def strip_def is_space_def lower_def lower_char_def env1_def phone1_def)

lemma create_customer_orders:
  "orders_sheet (snd (create_customer e vet n l m p a w)) = orders_sheet w"
  by (simp add: create_customer_def Let_def split: option.splits)

text \<open>
  C3. With the delivery mode \<^verbatim>\<open>DELIVERY\<close>, an address and a zone, \<open>create_order\<close> ends in
  \<^verbatim>\<open>error\<close> whether the zone is in the table of shipping rates or not: the value bound to
  \<^verbatim>\<open>shipping_cost\<close> is the dictionary of the tool \<open>get_shipping_cost\<close>, never \<^verbatim>\<open>None\<close>,
  and \<^verbatim>\<open>subtotal + shipping_cost\<close> raises. For a zone outside the table the claim says
  \<^verbatim>\<open>validation_error\<close>; for a zone in it, an order with the looked-up cost.
\<close>

theorem create_order_delivery_fails:
  "sheets_get_shipping_cost world1 ''Atlantis'' = None
   \<and> fst (create_order env1 ''s1'' ''VET001'' ''Ana'' ''Paz'' ''ana@example.com''
            ''+5491155550002'' ''DELIVERY'' (Some ''Calle 1'') (Some ''Atlantis'') world1)
       = OrderError
   \<and> sheets_get_shipping_cost world1 ''CABA'' = Some 1500
   \<and> fst (create_order env1 ''s1'' ''VET001'' ''Ana'' ''Paz'' ''ana@example.com''
            ''+5491155550002'' ''DELIVERY'' (Some ''Calle 1'') (Some ''CABA'') world1)
       = OrderError
   \<and> orders_sheet (snd (create_order env1 ''s1'' ''VET001'' ''Ana'' ''Paz'' ''ana@example.com''
            ''+5491155550002'' ''DELIVERY'' (Some ''Calle 1'') (Some ''CABA'') world1))
       = orders_sheet world1"
proof -
  have a: "sheets_get_shipping_cost world1 ''Atlantis'' = None"
    by (simp add: sheets_get_shipping_cost_def world1_def strip_def is_space_def
          lower_def lower_char_def)
  have b: "sheets_get_shipping_cost world1 ''CABA'' = Some 1500"
    by (simp add: sheets_get_shipping_cost_def world1_def strip_def is_space_def
          lower_def lower_char_def)
  have m: "new_DeliveryMode (upper ''DELIVERY'') = Some DELIVERY"
    by (simp add: new_DeliveryMode_def upper_def upper_char_def)
  show ?thesis
    using a b cart1 cust1 m
    by (simp add: create_order_def truthy_def text_of_def get_shipping_cost_def
          create_customer_orders Let_def)
qed


text \<open>
  The same for every input: no call with the mode \<^verbatim>\<open>DELIVERY\<close> creates an order or reports
  a zone without coverage. With \<^verbatim>\<open>PICKUP\<close> the order is stored with the amounts the
  claim gives, as long as they fit the 28 significant digits of the decimal context (the
  amounts here are exact).
\<close>

lemma create_order_delivery_never_creates:
  assumes "new_DeliveryMode (upper delivery_mode) = Some DELIVERY"
  shows "fst (create_order e session vet n l m p delivery_mode addr z w)
           \<in> {OrderEmptyCart, OrderValidationError CustomerDataInvalid,
               OrderValidationError AddressMissing, OrderValidationError ZoneMissing,
               OrderError}
       \<and> orders_sheet (snd (create_order e session vet n l m p delivery_mode addr z w))
           = orders_sheet w"
  using assms
  by (auto simp: create_order_def get_cart_for_order_def get_cart_def create_customer_orders
        Let_def split: option.splits prod.splits)

lemma create_order_pickup:
  assumes "get_cart_for_order session w = (Some cart, w1)"
      and "new_CustomerData e (strip n) (strip l) (lower (strip m)) p = Some cust"
      and "new_DeliveryMode (upper delivery_mode) = Some PICKUP"
      and "0 \<le> cart_total_amount cart"
  shows "\<exists>ord. fst (create_order e session vet n l m p delivery_mode addr z w)
                = OrderCreated (order_id ord)
           \<and> orders_sheet (snd (create_order e session vet n l m p delivery_mode addr z w))
               = orders_sheet w @ [ord]
           \<and> items ord = cart_items cart
           \<and> subtotal ord = sum_list (map item_subtotal (cart_items cart))
           \<and> shipping_cost ord = 0
           \<and> total_amount ord = subtotal ord + shipping_cost ord
           \<and> status ord = CREATED"
proof -
  have o: "orders_sheet w1 = orders_sheet w"
    using assms(1)
    by (auto simp: get_cart_for_order_def get_cart_def split: option.splits if_splits)
  show ?thesis
    using assms o
    by (simp add: create_order_def new_Order_def create_order_record_def log_event_def
          clear_cart_def get_cart_def send_order_created_notification_def
          create_customer_orders cart_total_amount_def Let_def
          split: option.splits prod.splits)
qed

subsection \<open>Webhooks\<close>

lemma ensure_valid_seen:
  "processed_notifications (snd (ensure_valid_mp_token e vet w)) = processed_notifications w"
  by (simp add: ensure_valid_mp_token_def refresh_request_def save_mp_tokens_def Let_def
        split: option.splits)

lemma update_payment_status_seen:
  "processed_notifications (snd (update_order_payment_status e oid pid mps st w))
     = processed_notifications w"
  by (simp add: update_order_payment_status_def Let_def)

lemma handle_approved_seen:
  "processed_notifications (handle_approved_payment vet oid pid w) = processed_notifications w"
  by (simp add: handle_approved_payment_def split: option.splits)

lemma process_payment_seen:
  "processed_notifications (snd (process_payment_with_vet e vet pid w))
     = processed_notifications w"
proof (cases "ensure_valid_mp_token e vet w")
  case (Pair r w1)
  then have s1: "processed_notifications w1 = processed_notifications w"
    using ensure_valid_seen [of e vet w] by simp
  show ?thesis
  proof (cases r)
    case (TokenSuccess token)
    show ?thesis
    proof (cases "get_mp_payment e token pid")
      case (HttpOk payment)
      show ?thesis
        using Pair TokenSuccess HttpOk s1
        by (simp add: process_payment_with_vet_def payment_request_def Let_def
              update_payment_status_seen handle_approved_seen log_event_def
              split: list.splits)
    qed (use Pair TokenSuccess s1 in
          \<open>simp_all add: process_payment_with_vet_def payment_request_def\<close>)
  qed (use Pair s1 in \<open>simp_all add: process_payment_with_vet_def\<close>)
qed

lemma webhook_v2_seen:
  assumes "k |\<in>| processed_notifications w"
  shows "k |\<in>| processed_notifications (snd (mercadopago_webhook_v2 e vet body w))"
  using assms
  by (auto simp: mercadopago_webhook_v2_def process_payment_seen Let_def
        split: request_body.splits)

lemma webhook_v2_marks:
  assumes "payload_type p = ''payment''" and "text_of (payload_data_id p) \<noteq> []"
  shows "(vet @ '':'' @ payload_action p @ '':'' @ text_of (payload_data_id p))
           |\<in>| processed_notifications (snd (mercadopago_webhook_v2 e vet (Body p) w))"
  using assms
  by (auto simp: mercadopago_webhook_v2_def process_payment_seen Let_def)

lemma webhook_v2_known:
  assumes "payload_type p = ''payment''" and "text_of (payload_data_id p) \<noteq> []"
      and "(vet @ '':'' @ payload_action p @ '':'' @ text_of (payload_data_id p))
             |\<in>| processed_notifications w"
  shows "mercadopago_webhook_v2 e vet (Body p) w = (Duplicate, w)"
  using assms by (simp add: mercadopago_webhook_v2_def Let_def)

lemma run_merchant_scoped_seen:
  "\<forall>c \<in> set cs. merchant_scoped c \<Longrightarrow> k |\<in>| processed_notifications w
     \<Longrightarrow> k |\<in>| processed_notifications (run cs w)"
proof (induction cs arbitrary: w)
  case Nil
  then show ?case by simp
next
  case (Cons c cs)
  then show ?case
    by (cases c) (auto intro: webhook_v2_seen)
qed


lemma token1_valid:
  assumes "token_store w = LocalTokenStore [''VET001'' \<mapsto> token1]" and "utcnow e = 0"
  shows "ensure_valid_mp_token e ''VET001'' w = (TokenSuccess ''AT-1'', w)"
  using assms
  by (simp add: ensure_valid_mp_token_def get_mp_tokens_def token1_def minutes_def datetime_sub_def datetime_min_def)

lemma first_attempt:
  "mercadopago_webhook_v2 env_api_down ''VET001'' notification1 world2
     = (WebhookError ''mp_api_error'',
        world2\<lparr>processed_notifications := {|''VET001:payment.updated:123''|},
               mp_requests := [GetPayment ''AT-1'' ''123'']\<rparr>)"
proof -
  let ?w = "world2\<lparr>processed_notifications := {|''VET001:payment.updated:123''|}\<rparr>"
  have t: "ensure_valid_mp_token env_api_down ''VET001'' ?w = (TokenSuccess ''AT-1'', ?w)"
    by (rule token1_valid) (simp_all add: world2_def world1_def)
  have s: "processed_notifications world2 = {||}" "mp_requests world2 = []"
    by (simp_all add: world2_def world1_def)
  show ?thesis
    using t s
    by (simp add: mercadopago_webhook_v2_def notification1_def text_of_def
          process_payment_with_vet_def payment_request_def env_api_down_def payment_down_def
          Let_def)
qed

text \<open>
  C6. Of two calls in a row to the merchant-scoped route for the same merchant, with
  payment notifications that carry the same action and the same payment id, the second
  is answered \<^verbatim>\<open>duplicate\<close> and leaves everything as the first call left it: orders,
  audit events, messages and requests to the processor.
\<close>

theorem webhook_v2_second_call_duplicate:
  assumes "payload_type p1 = ''payment''" and "payload_type p2 = ''payment''"
      and "payload_action p2 = payload_action p1"
      and "text_of (payload_data_id p2) = text_of (payload_data_id p1)"
      and "text_of (payload_data_id p1) \<noteq> []"
  shows "mercadopago_webhook_v2 e2 vet (Body p2)
           (snd (mercadopago_webhook_v2 e1 vet (Body p1) w))
         = (Duplicate, snd (mercadopago_webhook_v2 e1 vet (Body p1) w))"
proof -
  have "(vet @ '':'' @ payload_action p1 @ '':'' @ text_of (payload_data_id p1))
          |\<in>| processed_notifications (snd (mercadopago_webhook_v2 e1 vet (Body p1) w))"
    using assms(1,5) by (rule webhook_v2_marks)
  then show ?thesis
    using assms by (intro webhook_v2_known) simp_all
qed

theorem webhook_v2_second_call_duplicate_witness:
  "fst (mercadopago_webhook_v2 env_api_down ''VET001'' notification1 world2)
     = WebhookError ''mp_api_error''
   \<and> mercadopago_webhook_v2 env1 ''VET001'' notification1
       (snd (mercadopago_webhook_v2 env_api_down ''VET001'' notification1 world2))
     = (Duplicate,
        world2\<lparr>processed_notifications := {|''VET001:payment.updated:123''|},
               mp_requests := [GetPayment ''AT-1'' ''123'']\<rparr>)"
  using first_attempt
    webhook_v2_second_call_duplicate
      [of "\<lparr>payload_type = ''payment'', payload_action = ''payment.updated'',
             payload_data_id = Some ''123''\<rparr>"
          "\<lparr>payload_type = ''payment'', payload_action = ''payment.updated'',
             payload_data_id = Some ''123''\<rparr>"
          env1 "''VET001''" env_api_down world2]
  by (simp add: notification1_def text_of_def)

text \<open>
  Whatever the body, the same call made twice in a row changes nothing the second time:
  a notification that is not a payment, or has no payment id, is answered \<^verbatim>\<open>ignored\<close>
  both times and changes nothing at all.
\<close>

lemma webhook_v2_second_call_no_effect:
  "snd (mercadopago_webhook_v2 e2 vet body (snd (mercadopago_webhook_v2 e1 vet body w)))
     = snd (mercadopago_webhook_v2 e1 vet body w)"
proof (cases body)
  case InvalidBody
  then show ?thesis by (simp add: mercadopago_webhook_v2_def)
next
  case (Body p)
  show ?thesis
  proof (cases "payload_type p = ''payment'' \<and> text_of (payload_data_id p) \<noteq> []")
    case True
    then have "(vet @ '':'' @ payload_action p @ '':'' @ text_of (payload_data_id p))
          |\<in>| processed_notifications (snd (mercadopago_webhook_v2 e1 vet (Body p) w))"
      by (intro webhook_v2_marks) simp_all
    then show ?thesis
      using True Body by (simp add: webhook_v2_known)
  next
    case False
    then show ?thesis using Body by (auto simp: mercadopago_webhook_v2_def Let_def)
  qed
qed

lemma process_payment_error_orders:
  assumes "fst (process_payment_with_vet e vet pid w) = WebhookError reason"
  shows "orders_sheet (snd (process_payment_with_vet e vet pid w)) = orders_sheet w"
proof (cases "ensure_valid_mp_token e vet w")
  case (Pair r w1)
  then have s1: "orders_sheet w1 = orders_sheet w"
    using ensure_valid_orders [of e vet w] by simp
  show ?thesis
  proof (cases r)
    case (TokenSuccess token)
    show ?thesis
    proof (cases "get_mp_payment e token pid")
      case (HttpOk payment)
      show ?thesis
        using assms Pair TokenSuccess HttpOk s1
        by (simp add: process_payment_with_vet_def payment_request_def Let_def
              split: list.splits if_splits)
    qed (use Pair TokenSuccess s1 in
          \<open>simp_all add: process_payment_with_vet_def payment_request_def\<close>)
  qed (use Pair s1 in \<open>simp_all add: process_payment_with_vet_def\<close>)
qed

text \<open>
  C10, as the code has it. The merchant-scoped route puts the key into the set before it
  processes the notification. If the first attempt then ends in \<^verbatim>\<open>error\<close> (no usable
  token, a failed fetch from the processor, an exception, a reference of another
  merchant), it has not written to the orders, and after any further calls to the
  merchant-scoped route the same notification is answered \<^verbatim>\<open>duplicate\<close> and changes
  nothing.
\<close>

theorem webhook_v2_failed_attempt_blocks_replay:
  assumes "payload_type p = ''payment''" and "text_of (payload_data_id p) \<noteq> []"
      and "fst (mercadopago_webhook_v2 e vet (Body p) w) = WebhookError reason"
      and "\<forall>c \<in> set cs. merchant_scoped c"
  shows "orders_sheet (snd (mercadopago_webhook_v2 e vet (Body p) w)) = orders_sheet w
       \<and> mercadopago_webhook_v2 e' vet (Body p)
           (run cs (snd (mercadopago_webhook_v2 e vet (Body p) w)))
         = (Duplicate, run cs (snd (mercadopago_webhook_v2 e vet (Body p) w)))"
proof
  let ?k = "vet @ '':'' @ payload_action p @ '':'' @ text_of (payload_data_id p)"
  show "orders_sheet (snd (mercadopago_webhook_v2 e vet (Body p) w)) = orders_sheet w"
  proof (cases "?k |\<in>| processed_notifications w")
    case True
    then show ?thesis using assms(1,2) by (simp add: webhook_v2_known)
  next
    case False
    let ?w1 = "w\<lparr>processed_notifications := finsert ?k (processed_notifications w)\<rparr>"
    have eq: "mercadopago_webhook_v2 e vet (Body p) w
                = process_payment_with_vet e vet (text_of (payload_data_id p)) ?w1"
      using False assms(1,2) by (simp add: mercadopago_webhook_v2_def Let_def)
    then have "fst (process_payment_with_vet e vet (text_of (payload_data_id p)) ?w1)
                 = WebhookError reason"
      using assms(3) by simp
    then have "orders_sheet (snd (process_payment_with_vet e vet (text_of (payload_data_id p)) ?w1))
                 = orders_sheet ?w1"
      by (rule process_payment_error_orders)
    then show ?thesis using eq by simp
  qed
  have "?k |\<in>| processed_notifications (snd (mercadopago_webhook_v2 e vet (Body p) w))"
    using assms(1,2) by (rule webhook_v2_marks)
  then have "?k |\<in>| processed_notifications
                      (run cs (snd (mercadopago_webhook_v2 e vet (Body p) w)))"
    using assms(4) by (intro run_merchant_scoped_seen)
  then show "mercadopago_webhook_v2 e' vet (Body p)
               (run cs (snd (mercadopago_webhook_v2 e vet (Body p) w)))
             = (Duplicate, run cs (snd (mercadopago_webhook_v2 e vet (Body p) w)))"
    using assms(1,2) by (intro webhook_v2_known)
qed

theorem webhook_v2_failed_attempt_blocks_replay_witness:
  "fst (mercadopago_webhook_v2 env_api_down ''VET001'' notification1 world2)
     = WebhookError ''mp_api_error''
   \<and> list_all merchant_scoped [WebhookV2 env1 ''VET001'' notification_other]
   \<and> orders_sheet (snd (mercadopago_webhook_v2 env_api_down ''VET001'' notification1 world2))
       = [order2]
   \<and> fst (mercadopago_webhook_v2 env1 ''VET001'' notification1
            (run [WebhookV2 env1 ''VET001'' notification_other]
               (snd (mercadopago_webhook_v2 env_api_down ''VET001'' notification1 world2))))
       = Duplicate"
proof -
  have a: "fst (mercadopago_webhook_v2 env_api_down ''VET001''
                  (Body \<lparr>payload_type = ''payment'', payload_action = ''payment.updated'',
                         payload_data_id = Some ''123''\<rparr>) world2)
             = WebhookError ''mp_api_error''"
    using first_attempt by (simp add: notification1_def)
  have b: "\<forall>c \<in> set [WebhookV2 env1 ''VET001'' notification_other]. merchant_scoped c"
    by simp
  have c: "orders_sheet world2 = [order2]" by (simp add: world2_def)
  show ?thesis
    using a c webhook_v2_failed_attempt_blocks_replay [OF _ _ a b, of env1]
    by (simp add: notification1_def text_of_def)
qed


text \<open>
  C10 as it is stated fails through the generic route, which shares the set and empties
  it once it holds more than 10000 keys. After a first attempt that failed at the
  processor, 10000 notifications with other payment ids on the generic route empty the
  set; the replay is then processed, and the order moves to \<open>PAYMENT_APPROVED\<close>.
\<close>

lemma run_append: "run (xs @ ys) w = run ys (run xs w)"
  by (induction xs arbitrary: w) simp_all

lemma filler_key_inject: "filler_key i = filler_key j \<Longrightarrow> i = j"
proof -
  assume "filler_key i = filler_key j"
  then have "length (filler_key i) = length (filler_key j)" by simp
  then show "i = j" by (simp add: filler_key_def)
qed

lemma webhook_v1_filler:
  assumes "filler_key i |\<notin>| processed_notifications w"
  shows "snd (mercadopago_webhook (filler i) w)
           = (if fcard (finsert (filler_key i) (processed_notifications w)) > 10000
              then w\<lparr>processed_notifications := {||}\<rparr>
              else w\<lparr>processed_notifications :=
                       finsert (filler_key i) (processed_notifications w)\<rparr>)"
  using assms
  by (simp add: mercadopago_webhook_def filler_def filler_key_def text_of_def
        process_payment_notification_def Let_def)

lemma run_fillers:
  assumes "\<forall>i. filler_key i |\<notin>| processed_notifications w"
  shows "fcard (processed_notifications w) + n \<le> 10000 \<Longrightarrow>
         run (fillers n) w
           = w\<lparr>processed_notifications :=
                 processed_notifications w |\<union>| fset_of_list (map filler_key [0..<n])\<rparr>
         \<and> fcard (processed_notifications w |\<union>| fset_of_list (map filler_key [0..<n]))
             = fcard (processed_notifications w) + n"
proof (induction n)
  case 0
  then show ?case by simp
next
  case (Suc n)
  let ?S = "processed_notifications w |\<union>| fset_of_list (map filler_key [0..<n])"
  from Suc have ih: "run (fillers n) w = w\<lparr>processed_notifications := ?S\<rparr>"
    and card: "fcard ?S = fcard (processed_notifications w) + n"
    by simp_all
  have fresh: "filler_key n |\<notin>| ?S"
    using assms by (auto simp: fset_of_list_elem dest: filler_key_inject)
  have card': "fcard (finsert (filler_key n) ?S) = fcard (processed_notifications w) + Suc n"
    using fresh card by (simp add: fcard_finsert_disjoint)
  have ext: "processed_notifications w |\<union>| fset_of_list (map filler_key [0..<Suc n])
               = finsert (filler_key n) ?S"
    by auto
  have "run (fillers (Suc n)) w
          = snd (mercadopago_webhook (filler n) (w\<lparr>processed_notifications := ?S\<rparr>))"
    using ih by (simp add: run_append)
  also have "\<dots> = w\<lparr>processed_notifications := finsert (filler_key n) ?S\<rparr>"
    using fresh card' Suc.prems by (simp add: webhook_v1_filler)
  finally show ?case using card' ext by simp
qed

lemma run_fillers_clear:
  assumes "\<forall>i. filler_key i |\<notin>| processed_notifications w"
      and "fcard (processed_notifications w) = 1"
  shows "run (fillers 10000) w = w\<lparr>processed_notifications := {||}\<rparr>"
proof -
  let ?S = "processed_notifications w |\<union>| fset_of_list (map filler_key [0..<9999])"
  have "fcard (processed_notifications w) + 9999 \<le> 10000" using assms(2) by simp
  from run_fillers [OF assms(1) this]
  have r: "run (fillers 9999) w = w\<lparr>processed_notifications := ?S\<rparr>"
    and card: "fcard ?S = 10000"
    using assms(2) by simp_all
  have fresh: "filler_key 9999 |\<notin>| ?S"
    using assms(1) by (auto simp: fset_of_list_elem dest: filler_key_inject)
  have card': "fcard (finsert (filler_key 9999) ?S) = 10001"
    using fresh card by (simp add: fcard_finsert_disjoint)
  have "fillers 10000 = fillers 9999 @ [WebhookV1 (filler 9999)]"
    using fillers.simps(2) [of 9999] by simp
  then have "run (fillers 10000) w
          = snd (mercadopago_webhook (filler 9999) (w\<lparr>processed_notifications := ?S\<rparr>))"
    using r by (simp add: run_append)
  also have "\<dots> = w\<lparr>processed_notifications := {||}\<rparr>"
    using fresh card' by (simp add: webhook_v1_filler)
  finally show ?thesis .
qed

lemma process_approved:
  assumes "token_store w = LocalTokenStore [''VET001'' \<mapsto> token1]"
      and "orders_sheet w = [order2]" and "vets_sheet w = [vet1]"
  shows "fst (process_payment_with_vet env1 ''VET001'' ''123'' w)
           = Processed ''123'' ''ORD-0000000A'' ''approved''"
    and "orders_sheet (snd (process_payment_with_vet env1 ''VET001'' ''123'' w))
           = [order2\<lparr>mp_payment_id := Some ''123'', mp_status := Some MP_APPROVED,
                      status := PAYMENT_APPROVED, updated_at := 0\<rparr>]"
    and "outbox (snd (process_payment_with_vet env1 ''VET001'' ''123'' w))
           = outbox w @ [PaymentConfirmationToVet ''+5491155550001'' ''ORD-0000000A'',
                         OrderStatusToCustomer ''+5491155550002'' ''ORD-0000000A'',
                         PaymentApprovedEmail ''ORD-0000000A'' ''123'']"
proof -
  have t: "ensure_valid_mp_token env1 ''VET001'' w = (TokenSuccess ''AT-1'', w)"
    using assms(1) by (rule token1_valid) simp
  have p: "get_mp_payment env1 ''AT-1'' ''123''
             = HttpOk \<lparr>pay_external_reference = ''DTV|VET001|ORD-0000000A'',
                       pay_status = ''approved'', pay_status_detail = ''accredited''\<rparr>"
    by (simp add: env1_def payment1_def)
  have m: "map_mp_status_to_order_status ''approved'' = PAYMENT_APPROVED"
    "map_mp_status ''approved'' = MP_APPROVED"
    by (simp_all add: map_mp_status_to_order_status_def order_status_mapping_def
          map_mp_status_def mp_status_mapping_def)
  have u: "utcnow env1 = 0" by simp
  have o: "order_id order2 = ''ORD-0000000A''"
    "whatsapp_e164 (customer order2) = ''+5491155550002''"
    "external_reference order2 = Some ''DTV|VET001|ORD-0000000A''"
    by (simp_all add: order2_def order1_def)
  have v: "vet_vet_id vet1 = ''VET001''" "vet_whatsapp_e164 vet1 = ''+5491155550001''"
    by (simp_all add: vet1_def)
  have r: "process_payment_with_vet env1 ''VET001'' ''123'' w
             = (Processed ''123'' ''ORD-0000000A'' ''approved'',
                w\<lparr>mp_requests := mp_requests w @ [GetPayment ''AT-1'' ''123''],
                  orders_sheet := [order2\<lparr>mp_payment_id := Some ''123'',
                                           mp_status := Some MP_APPROVED,
                                           status := PAYMENT_APPROVED, updated_at := 0\<rparr>],
                  events_sheet := events_sheet w @
                    [\<lparr>event_order_id = Some ''ORD-0000000A'', event_vet_id = Some ''VET001'',
                      event_type = PAYMENT_RECEIVED, event_created_at = 0\<rparr>],
                  outbox := outbox w @
                    [PaymentConfirmationToVet ''+5491155550001'' ''ORD-0000000A'',
                     OrderStatusToCustomer ''+5491155550002'' ''ORD-0000000A'',
                     PaymentApprovedEmail ''ORD-0000000A'' ''123'']\<rparr>)"
    using t p m u o v assms(2,3)
    by (simp add: process_payment_with_vet_def payment_request_def
          update_order_payment_status_def log_event_def handle_approved_payment_def
          get_vet_by_id_def get_order_by_external_reference_def cell_def Let_def)
  show "fst (process_payment_with_vet env1 ''VET001'' ''123'' w)
           = Processed ''123'' ''ORD-0000000A'' ''approved''"
    and "orders_sheet (snd (process_payment_with_vet env1 ''VET001'' ''123'' w))
           = [order2\<lparr>mp_payment_id := Some ''123'', mp_status := Some MP_APPROVED,
                      status := PAYMENT_APPROVED, updated_at := 0\<rparr>]"
    and "outbox (snd (process_payment_with_vet env1 ''VET001'' ''123'' w))
           = outbox w @ [PaymentConfirmationToVet ''+5491155550001'' ''ORD-0000000A'',
                         OrderStatusToCustomer ''+5491155550002'' ''ORD-0000000A'',
                         PaymentApprovedEmail ''ORD-0000000A'' ''123'']"
    using r by simp_all
qed

theorem webhook_v2_replay_counterexample:
  "fst (mercadopago_webhook_v2 env_api_down ''VET001'' notification1 world2)
     = WebhookError ''mp_api_error''
   \<and> fst (mercadopago_webhook_v2 env1 ''VET001'' notification1
            (run (fillers 10000)
               (snd (mercadopago_webhook_v2 env_api_down ''VET001'' notification1 world2))))
       = Processed ''123'' ''ORD-0000000A'' ''approved''
   \<and> map_option status
       (get_order_by_id
          (snd (mercadopago_webhook_v2 env1 ''VET001'' notification1
                  (run (fillers 10000)
                     (snd (mercadopago_webhook_v2 env_api_down ''VET001'' notification1
                             world2)))))
          ''ORD-0000000A'')
       = Some PAYMENT_APPROVED"
proof -
  let ?w1 = "world2\<lparr>processed_notifications := {|''VET001:payment.updated:123''|},
                    mp_requests := [GetPayment ''AT-1'' ''123'']\<rparr>"
  let ?w2 = "?w1\<lparr>processed_notifications := {||}\<rparr>"
  let ?w3 = "?w2\<lparr>processed_notifications := {|''VET001:payment.updated:123''|}\<rparr>"
  have first: "mercadopago_webhook_v2 env_api_down ''VET001'' notification1 world2
                 = (WebhookError ''mp_api_error'', ?w1)"
    by (rule first_attempt)
  have "\<forall>i. filler_key i |\<notin>| processed_notifications ?w1"
    by (simp add: filler_key_def)
  moreover have "fcard (processed_notifications ?w1) = 1"
    by (simp add: fcard_finsert_disjoint)
  ultimately have cleared: "run (fillers 10000) ?w1 = ?w2"
    by (rule run_fillers_clear)
  have "mercadopago_webhook_v2 env1 ''VET001'' notification1 ?w2
          = process_payment_with_vet env1 ''VET001'' ''123'' ?w3"
    by (simp add: mercadopago_webhook_v2_def notification1_def text_of_def Let_def)
  moreover have "token_store ?w3 = LocalTokenStore [''VET001'' \<mapsto> token1]"
    "orders_sheet ?w3 = [order2]" "vets_sheet ?w3 = [vet1]"
    by (simp_all add: world2_def world1_def)
  ultimately have
    "fst (mercadopago_webhook_v2 env1 ''VET001'' notification1 ?w2)
       = Processed ''123'' ''ORD-0000000A'' ''approved''"
    "orders_sheet (snd (mercadopago_webhook_v2 env1 ''VET001'' notification1 ?w2))
       = [order2\<lparr>mp_payment_id := Some ''123'', mp_status := Some MP_APPROVED,
                  status := PAYMENT_APPROVED, updated_at := 0\<rparr>]"
    using process_approved(1,2) [of ?w3] by simp_all
  then show ?thesis
    using first cleared
    by (simp add: get_order_by_id_def order2_def order1_def)
qed

subsection \<open>External references\<close>

lemma same_keys_refl: "same_keys rows rows"
  by (simp add: same_keys_def list_all2_same)

lemma same_keys_orders_ok:
  assumes "same_keys rows rows'" and "orders_ok rows"
  shows "orders_ok rows'"
  unfolding orders_ok_def
proof
  fix b assume "b \<in> set rows'"
  then obtain a where "a \<in> set rows"
    and "order_id b = order_id a \<and> vet_id b = vet_id a
           \<and> external_reference b = external_reference a"
    using assms(1) unfolding same_keys_def
    by (metis (mono_tags, lifting) in_set_conv_nth list_all2_conv_all_nth)
  then show "CHR ''|'' \<notin> set (order_id b) \<and> reference_ok b"
    using assms(2) by (auto simp: orders_ok_def reference_ok_def split: option.splits)
qed

lemma update_first_same_keys:
  assumes "\<And>row. order_id (f row) = order_id row \<and> vet_id (f row) = vet_id row
                  \<and> external_reference (f row) = external_reference row"
  shows "same_keys rows (snd (update_first P f rows))"
  unfolding same_keys_def
  by (induction rows) (simp_all add: assms list_all2_same)

lemma upper_char_bar: "upper_char c = CHR ''|'' \<Longrightarrow> c = CHR ''|''"
  by (simp add: upper_char_def split: option.splits if_splits)

lemma order_id_no_bar:
  assumes "hex_string h"
  shows "CHR ''|'' \<notin> set (''ORD-'' @ upper (take 8 h))"
proof -
  have "CHR ''|'' \<notin> set h" using assms by (auto simp: hex_string_def)
  then have "CHR ''|'' \<notin> set (take 8 h)" by (auto dest: in_set_takeD)
  then have "CHR ''|'' \<notin> set (upper (take 8 h))"
    using upper_char_bar by (fastforce simp: upper_def)
  then show ?thesis by simp
qed

lemma split_nonempty: "split sep s \<noteq> []"
  by (induction s) (auto split: list.splits)

lemma split_head_no_separator: "split sep s = part # parts \<Longrightarrow> sep \<notin> set part"
  by (induction s arbitrary: part parts) (auto split: if_splits list.splits)

lemma secret_id_inject: "secret_id_of a = secret_id_of b \<Longrightarrow> a = b"
  by (simp add: secret_id_of_def)

lemma save_token_get:
  "get_token (snd (save_token s t)) vet \<noteq> None
     \<Longrightarrow> vet = token_vet_id t \<or> get_token s vet \<noteq> None"
  by (cases s)
     (auto simp: access_secret_version_def create_secret_def add_secret_version_def
           dest: secret_id_inject split: option.splits sum.splits list.splits if_splits)

lemma save_token_vault_ok:
  "vault_ok s \<Longrightarrow> CHR ''|'' \<notin> set (token_vet_id t) \<Longrightarrow> vault_ok (snd (save_token s t))"
  unfolding vault_ok_def using save_token_get by blast

lemma save_mp_tokens_vault_ok:
  "vault_ok (token_store w) \<Longrightarrow> CHR ''|'' \<notin> set (token_vet_id t)
     \<Longrightarrow> vault_ok (token_store (snd (save_mp_tokens e t w)))"
  by (simp add: save_mp_tokens_def save_token_vault_ok)

lemma save_mp_tokens_orders:
  "orders_sheet (snd (save_mp_tokens e t w)) = orders_sheet w"
  by (simp add: save_mp_tokens_def)


lemma ensure_valid_vault_ok:
  assumes "vault_ok (token_store w)"
  shows "vault_ok (token_store (snd (ensure_valid_mp_token e vet w)))"
proof (cases "get_mp_tokens w vet")
  case None
  then show ?thesis using assms by (simp add: ensure_valid_mp_token_def)
next
  case (Some tokens)
  then have bar: "CHR ''|'' \<notin> set vet"
    using assms by (simp add: vault_ok_def get_mp_tokens_def)
  have save: "\<And>t. token_vet_id t = vet \<Longrightarrow>
      vault_ok (token_store (snd (save_mp_tokens e t
        (w\<lparr>mp_requests := mp_requests w @ [RefreshToken (refresh_token tokens)]\<rparr>))))"
    using assms bar by (intro save_mp_tokens_vault_ok) simp_all
  show ?thesis
    using Some assms save
    by (simp add: ensure_valid_mp_token_def refresh_request_def Let_def
          split: option.splits)
qed

lemma ensure_valid_success_connected:
  "fst (ensure_valid_mp_token e vet w) = TokenSuccess a \<Longrightarrow> get_mp_tokens w vet \<noteq> None"
  by (auto simp: ensure_valid_mp_token_def split: option.splits)

lemma create_payment_link_token_store:
  "token_store (snd (create_payment_link e vet oid w))
     = token_store (snd (ensure_valid_mp_token e vet w))"
  by (cases "ensure_valid_mp_token e vet w")
     (auto simp: create_payment_link_def preference_request_def update_order_preference_def
        Let_def split: token_result.splits option.splits prod.splits)

lemma create_payment_link_connected:
  "fst (create_payment_link e vet oid w) = LinkSuccess url pid ref
     \<Longrightarrow> get_mp_tokens w vet \<noteq> None"
  using ensure_valid_success_connected [of e vet w]
  by (cases "ensure_valid_mp_token e vet w")
     (auto simp: create_payment_link_def split: token_result.splits)

lemma create_payment_link_orders_ok:
  assumes "vault_ok (token_store w)" and "orders_ok (orders_sheet w)"
  shows "orders_ok (orders_sheet (snd (create_payment_link e vet oid w)))"
proof (cases "fst (create_payment_link e vet oid w)")
  case (LinkSuccess url pid ref)
  let ?P = "\<lambda>row. order_id row = oid"
  let ?f = "\<lambda>row. row\<lparr>mp_preference_id := cell pid, external_reference := cell ref,
                        payment_method := Some MERCADOPAGO, status := PAYMENT_PENDING_MP,
                        updated_at := utcnow e\<rparr>"
  from create_payment_link_success [OF LinkSuccess] obtain ord where
    f: "find ?P (orders_sheet w) = Some ord" and v: "vet_id ord = vet"
    and r: "ref = ''DTV|'' @ vet @ ''|'' @ oid"
    and u: "orders_sheet (snd (create_payment_link e vet oid w))
              = snd (update_first ?P ?f (orders_sheet w))"
    by blast
  from f have p: "order_id ord = oid" and m: "ord \<in> set (orders_sheet w)"
    by (auto simp: find_Some_iff)
  have vbar: "CHR ''|'' \<notin> set vet"
    using create_payment_link_connected [OF LinkSuccess] assms(1)
    by (simp add: vault_ok_def get_mp_tokens_def)
  have obar: "CHR ''|'' \<notin> set oid"
    using m p assms(2) by (auto simp: orders_ok_def)
  have sp: "split CHR ''|'' ref = [''DTV'', vet, oid]"
    unfolding r using vbar obar by (rule split_reference)
  have new: "CHR ''|'' \<notin> set (order_id (?f ord)) \<and> reference_ok (?f ord)"
    using sp v p r obar by (simp add: reference_ok_def cell_def)
  show ?thesis
    unfolding orders_ok_def u
  proof
    fix row' assume "row' \<in> set (snd (update_first ?P ?f (orders_sheet w)))"
    then have "row' \<in> set (orders_sheet w)
                 \<or> (\<exists>row. find ?P (orders_sheet w) = Some row \<and> row' = ?f row)"
      by (rule update_first_set)
    then show "CHR ''|'' \<notin> set (order_id row') \<and> reference_ok row'"
      using assms(2) f new by (auto simp: orders_ok_def)
  qed
next
  case MpNotConnected
  then show ?thesis using assms(2) create_payment_link_failures [of e vet oid w] by simp
next
  case LinkOrderNotFound
  then show ?thesis using assms(2) create_payment_link_failures [of e vet oid w] by simp
next
  case LinkError
  then show ?thesis using assms(2) create_payment_link_failures [of e vet oid w] by simp
qed

lemma get_cart_keeps:
  "orders_sheet (snd (get_cart session w)) = orders_sheet w"
  "token_store (snd (get_cart session w)) = token_store w"
  by (simp_all add: get_cart_def split: option.splits)

lemma clear_cart_keeps:
  "orders_sheet (clear_cart session w) = orders_sheet w"
  "token_store (clear_cart session w) = token_store w"
  by (simp_all add: clear_cart_def get_cart_def split: option.splits prod.splits)

lemma create_customer_token_store:
  "token_store (snd (create_customer e vet n l m p a w)) = token_store w"
  by (simp add: create_customer_def Let_def split: option.splits)

lemma new_Order_keys:
  "new_Order e oid vet cust deliv cart sub ship tot = Some ord
     \<Longrightarrow> order_id ord = oid \<and> external_reference ord = None"
  by (auto simp: new_Order_def split: option.splits if_splits)

lemma create_order_effect:
  "token_store (snd (create_order e session vet n l m p dm da dz w)) = token_store w
   \<and> (orders_sheet (snd (create_order e session vet n l m p dm da dz w)) = orders_sheet w
       \<or> (\<exists>ord. orders_sheet (snd (create_order e session vet n l m p dm da dz w))
                    = orders_sheet w @ [ord]
                \<and> order_id ord = ''ORD-'' @ upper (take 8 (order_uuid_hex e))
                \<and> external_reference ord = None))"
proof (cases "get_cart session w")
  case (Pair cart w1)
  have k: "orders_sheet w1 = orders_sheet w" "token_store w1 = token_store w"
    using get_cart_keeps [of session w] Pair by simp_all
  show ?thesis
    using Pair k
    by (auto simp: create_order_def get_cart_for_order_def create_customer_orders
          create_customer_token_store create_order_record_def log_event_def
          clear_cart_keeps send_order_created_notification_def Let_def
          dest: new_Order_keys
          split: option.splits)
qed


lemma create_order_keeps:
  assumes "hex_string (order_uuid_hex e)"
      and "vault_ok (token_store w)" and "orders_ok (orders_sheet w)"
  shows "vault_ok (token_store (snd (create_order e session vet n l m p dm da dz w)))
       \<and> orders_ok (orders_sheet (snd (create_order e session vet n l m p dm da dz w)))"
  using create_order_effect [of e session vet n l m p dm da dz w] assms(2,3)
    order_id_no_bar [OF assms(1)]
  by (auto simp: orders_ok_def reference_ok_def)

lemma update_order_status_keeps:
  "token_store (snd (update_order_status e oid st w)) = token_store w"
  "same_keys (orders_sheet w) (orders_sheet (snd (update_order_status e oid st w)))"
  by (simp_all add: update_order_status_def Let_def update_first_same_keys)

lemma cancel_order_keeps:
  "token_store (snd (cancel_order e oid notify w)) = token_store w"
  "same_keys (orders_sheet w) (orders_sheet (snd (cancel_order e oid notify w)))"
  using update_order_status_keeps [where w = w and e = e and oid = oid and st = CANCELLED]
  by (simp_all add: cancel_order_def log_event_def send_order_status_to_customer_def Let_def
        same_keys_refl case_prod_beta split: option.splits bool.splits)

lemma set_payment_method_keeps:
  "token_store (snd (set_payment_method e oid payment_method' w)) = token_store w"
  "same_keys (orders_sheet w) (orders_sheet (snd (set_payment_method e oid payment_method' w)))"
  by (simp_all add: set_payment_method_def set_order_payment_method_def log_event_def Let_def
        same_keys_refl update_first_same_keys case_prod_beta
        split: option.splits bool.splits)

lemma webhook_v1_keeps:
  "token_store (snd (mercadopago_webhook body w)) = token_store w"
  "orders_sheet (snd (mercadopago_webhook body w)) = orders_sheet w"
  by (auto simp: mercadopago_webhook_def process_payment_notification_def Let_def
        split: request_body.splits)

lemma handle_approved_keeps:
  "token_store (handle_approved_payment vet oid pid w) = token_store w"
  "orders_sheet (handle_approved_payment vet oid pid w) = orders_sheet w"
  by (simp_all add: handle_approved_payment_def split: option.splits)

lemma update_payment_status_keeps:
  "token_store (snd (update_order_payment_status e oid pid mps st w)) = token_store w"
  "same_keys (orders_sheet w) (orders_sheet (snd (update_order_payment_status e oid pid mps st w)))"
  by (simp_all add: update_order_payment_status_def Let_def update_first_same_keys)

lemma process_payment_keeps:
  "token_store (snd (process_payment_with_vet e vet pid w))
     = token_store (snd (ensure_valid_mp_token e vet w))"
  "same_keys (orders_sheet w) (orders_sheet (snd (process_payment_with_vet e vet pid w)))"
proof -
  obtain r w1 where ev: "ensure_valid_mp_token e vet w = (r, w1)"
    by (cases "ensure_valid_mp_token e vet w")
  then have s1: "orders_sheet w1 = orders_sheet w"
    using ensure_valid_orders [of e vet w] by simp
  have "token_store (snd (process_payment_with_vet e vet pid w)) = token_store w1
      \<and> same_keys (orders_sheet w) (orders_sheet (snd (process_payment_with_vet e vet pid w)))"
  proof (cases r)
    case (TokenSuccess token)
    show ?thesis
    proof (cases "get_mp_payment e token pid")
      case (HttpOk payment)
      have u: "\<And>oid' mps st.
          same_keys (orders_sheet w)
            (orders_sheet (snd (update_order_payment_status e oid' pid mps st
               (w1\<lparr>mp_requests := mp_requests w1 @ [GetPayment token pid]\<rparr>))))"
        using update_payment_status_keeps(2)
                [where w = "w1\<lparr>mp_requests := mp_requests w1 @ [GetPayment token pid]\<rparr>"] s1
        by simp
      show ?thesis
        using ev TokenSuccess HttpOk s1 u
        by (simp add: process_payment_with_vet_def payment_request_def Let_def
              update_payment_status_keeps(1) handle_approved_keeps log_event_def
              same_keys_refl split: list.splits)
    qed (use ev TokenSuccess s1 in
          \<open>simp_all add: process_payment_with_vet_def payment_request_def same_keys_refl\<close>)
  qed (use ev s1 in \<open>simp_all add: process_payment_with_vet_def same_keys_refl\<close>)
  then show "token_store (snd (process_payment_with_vet e vet pid w))
               = token_store (snd (ensure_valid_mp_token e vet w))"
    and "same_keys (orders_sheet w) (orders_sheet (snd (process_payment_with_vet e vet pid w)))"
    using ev by simp_all
qed

lemma webhook_v2_keeps:
  assumes "vault_ok (token_store w)" and "orders_ok (orders_sheet w)"
  shows "vault_ok (token_store (snd (mercadopago_webhook_v2 e vet body w)))
       \<and> orders_ok (orders_sheet (snd (mercadopago_webhook_v2 e vet body w)))"
proof -
  have "snd (mercadopago_webhook_v2 e vet body w) = w
      \<or> (\<exists>pid k. snd (mercadopago_webhook_v2 e vet body w)
                   = snd (process_payment_with_vet e vet pid
                            (w\<lparr>processed_notifications := k\<rparr>)))"
    by (auto simp: mercadopago_webhook_v2_def Let_def split: request_body.splits)
  then show ?thesis
  proof
    assume "snd (mercadopago_webhook_v2 e vet body w) = w"
    then show ?thesis using assms by simp
  next
    assume "\<exists>pid k. snd (mercadopago_webhook_v2 e vet body w)
                   = snd (process_payment_with_vet e vet pid
                            (w\<lparr>processed_notifications := k\<rparr>))"
    then obtain pid k where
      eq: "snd (mercadopago_webhook_v2 e vet body w)
             = snd (process_payment_with_vet e vet pid (w\<lparr>processed_notifications := k\<rparr>))"
      by blast
    let ?w = "w\<lparr>processed_notifications := k\<rparr>"
    have "vault_ok (token_store (snd (ensure_valid_mp_token e vet ?w)))"
      using assms(1) by (intro ensure_valid_vault_ok) simp
    moreover have "orders_ok (orders_sheet (snd (process_payment_with_vet e vet pid ?w)))"
      using same_keys_orders_ok [OF process_payment_keeps(2) [where w = ?w]] assms(2)
      by simp
    ultimately show ?thesis
      using eq process_payment_keeps(1) [where w = ?w] by simp
  qed
qed

lemma update_vet_keeps:
  "token_store (snd (update_vet_mp_status vet c u w)) = token_store w"
  "orders_sheet (snd (update_vet_mp_status vet c u w)) = orders_sheet w"
  by (simp_all add: update_vet_mp_status_def Let_def)

lemma complete_mp_oauth_keeps:
  assumes "CHR ''|'' \<notin> set vet" and "vault_ok (token_store w)"
  shows "vault_ok (token_store (snd (complete_mp_oauth e vet code w)))"
    and "orders_sheet (snd (complete_mp_oauth e vet code w)) = orders_sheet w"
proof -
  have save: "\<And>t. token_vet_id t = vet \<Longrightarrow>
      vault_ok (token_store (snd (save_mp_tokens e t
        (w\<lparr>mp_requests := mp_requests w @ [ExchangeCode code]\<rparr>))))"
    using assms by (intro save_mp_tokens_vault_ok) simp_all
  show "vault_ok (token_store (snd (complete_mp_oauth e vet code w)))"
    using assms(2) save
    by (simp add: complete_mp_oauth_def exchange_request_def update_vet_keeps Let_def
          case_prod_beta split: option.splits bool.splits)
  show "orders_sheet (snd (complete_mp_oauth e vet code w)) = orders_sheet w"
    by (simp add: complete_mp_oauth_def exchange_request_def update_vet_keeps
          save_mp_tokens_orders Let_def case_prod_beta split: option.splits bool.splits)
qed

lemma mp_oauth_callback_keeps:
  assumes "vault_ok (token_store w)"
  shows "vault_ok (token_store (snd (mp_oauth_callback e code state error w)))"
    and "orders_sheet (snd (mp_oauth_callback e code state error w)) = orders_sheet w"
proof -
  have "snd (mp_oauth_callback e code state error w) = w
      \<or> (\<exists>vet parts c. split CHR ''|'' (text_of state) = vet # parts
            \<and> snd (mp_oauth_callback e code state error w)
                = snd (complete_mp_oauth e vet c w))"
    by (auto simp: mp_oauth_callback_def case_prod_beta
          split: list.splits oauth_result.splits)
  then have "vault_ok (token_store (snd (mp_oauth_callback e code state error w)))
      \<and> orders_sheet (snd (mp_oauth_callback e code state error w)) = orders_sheet w"
  proof
    assume "snd (mp_oauth_callback e code state error w) = w"
    then show ?thesis using assms by simp
  next
    assume "\<exists>vet parts c. split CHR ''|'' (text_of state) = vet # parts
            \<and> snd (mp_oauth_callback e code state error w)
                = snd (complete_mp_oauth e vet c w)"
    then obtain vet parts c where sp: "split CHR ''|'' (text_of state) = vet # parts"
      and eq: "snd (mp_oauth_callback e code state error w) = snd (complete_mp_oauth e vet c w)"
      by blast
    from sp have "CHR ''|'' \<notin> set vet" by (rule split_head_no_separator)
    then show ?thesis
      using eq assms complete_mp_oauth_keeps [where vet = vet and w = w] by simp
  qed
  then show "vault_ok (token_store (snd (mp_oauth_callback e code state error w)))"
    and "orders_sheet (snd (mp_oauth_callback e code state error w)) = orders_sheet w"
    by simp_all
qed

lemma initial_ok: "initial w \<Longrightarrow> vault_ok (token_store w) \<and> orders_ok (orders_sheet w)"
  by (auto simp: initial_def vault_ok_def orders_ok_def access_secret_version_def)

lemma reachable_ok:
  "reachable w \<Longrightarrow> vault_ok (token_store w) \<and> orders_ok (orders_sheet w)"
proof (induction rule: reachable.induct)
  case (start w)
  then show ?case by (rule initial_ok)
next
  case (order_created w e session vet n l m p dm da dz)
  then show ?case by (simp add: create_order_keeps)
next
  case (order_cancelled w e oid notify)
  then show ?case
    using cancel_order_keeps(1) [of e oid notify w]
      same_keys_orders_ok [OF cancel_order_keeps(2) [of w e oid notify]]
    by simp
next
  case (payment_method_set w e oid payment_method')
  then show ?case
    using set_payment_method_keeps(1) [of e oid payment_method' w]
      same_keys_orders_ok [OF set_payment_method_keeps(2) [of w e oid payment_method']]
    by simp
next
  case (link_created w e vet oid)
  then show ?case
    by (simp add: create_payment_link_orders_ok create_payment_link_token_store
          ensure_valid_vault_ok)
next
  case (token_checked w e vet)
  then show ?case by (simp add: ensure_valid_vault_ok ensure_valid_orders)
next
  case (authorised w e code state error)
  then show ?case by (simp add: mp_oauth_callback_keeps)
next
  case (notified w body)
  then show ?case by (simp add: webhook_v1_keeps)
next
  case (notified_v2 w e vet body)
  then show ?case by (simp add: webhook_v2_keeps)
next
  case (fulfilled w e oid st)
  then show ?case
    using update_order_status_keeps(1) [of e oid st w]
      same_keys_orders_ok [OF update_order_status_keeps(2) [of w e oid st]]
    by simp
next
  case (elsewhere w w')
  then show ?case by simp
qed

text \<open>
  C5. In every state the code can reach, an order whose \<^verbatim>\<open>external_reference\<close> has been
  set has a reference that splits at the bars into exactly three parts: the tag
  \<^verbatim>\<open>DTV\<close>, the order's \<^verbatim>\<open>vet_id\<close> and the order's \<^verbatim>\<open>order_id\<close>. A reference is written
  only by \<open>create_payment_link\<close>, for a merchant with a token in the vault; a token
  enters the vault only through the OAuth callback, under the part of \<^verbatim>\<open>state\<close> before
  the first bar, and the order ids are \<^verbatim>\<open>ORD-\<close> and eight hexadecimal digits.
\<close>

theorem external_reference_three_parts:
  assumes "reachable w" and "ord \<in> set (orders_sheet w)"
      and "external_reference ord = Some ref"
  shows "split CHR ''|'' ref = [''DTV'', vet_id ord, order_id ord]"
  using reachable_ok [OF assms(1)] assms(2,3)
  by (auto simp: orders_ok_def reference_ok_def)


lemma world_a_facts:
  "token_store world_a = LocalTokenStore [''VET001'' \<mapsto> token1]"
  "orders_sheet world_a = []"
proof -
  have sp: "split CHR ''|'' ''VET001|1700000000'' = [''VET001'', ''1700000000'']"
    by simp
  have d: "datetime_add 0 (seconds 3600) = Some (minutes 60)"
    by (simp add: datetime_add_def seconds_def minutes_def datetime_min_def datetime_max_def)
  have e: "has_mp env1" "token_store_writable env1"
    "exchange_code_for_tokens env1 ''TG-1''
       = Some \<lparr>resp_access_token = Some ''AT-1'', resp_refresh_token = Some ''RT-1'',
               resp_expires_in = Some 3600, resp_user_id = Some ''777''\<rparr>"
    by (simp_all add: env1_def exchange1_def)
  have w: "token_store world0 = LocalTokenStore Map.empty" "orders_sheet world0 = []"
    by (simp_all add: world0_def)
  show "token_store world_a = LocalTokenStore [''VET001'' \<mapsto> token1]"
    using sp d e w
    by (simp add: world_a_def mp_oauth_callback_def truthy_def text_of_def
          complete_mp_oauth_def exchange_request_def save_mp_tokens_def
          update_vet_mp_status_def token1_def Let_def)
  show "orders_sheet world_a = []"
    using sp d e w
    by (simp add: world_a_def mp_oauth_callback_def truthy_def text_of_def
          complete_mp_oauth_def exchange_request_def save_mp_tokens_def
          update_vet_mp_status_def Let_def)
qed

lemma world_c_facts:
  "token_store world_c = LocalTokenStore [''VET001'' \<mapsto> token1]"
  "orders_sheet world_c = [order_c]"
proof -
  have b: "token_store world_b = LocalTokenStore [''VET001'' \<mapsto> token1]"
    "orders_sheet world_b = []"
    using world_a_facts by (simp_all add: world_b_def)
  have cart: "get_cart_for_order ''s1'' world_b
     = (Some \<lparr>cart_items = [item_a], cart_currency = ''ARS''\<rparr>, world_b)"
    by (simp add: get_cart_for_order_def get_cart_def world_b_def is_empty_def)
  have m: "new_DeliveryMode (upper ''PICKUP'') = Some PICKUP"
    by (simp add: new_DeliveryMode_def upper_def upper_char_def)
  have i: "''ORD-'' @ upper (take 8 (order_uuid_hex env1)) = ''ORD-01234567''"
    by (simp add: env1_def upper_def upper_char_def)
  have t: "cart_total_amount \<lparr>cart_items = [item_a], cart_currency = ''ARS''\<rparr> = 200"
    by (simp add: cart_total_amount_def item_subtotal_def item_a_def)
  show "token_store world_c = LocalTokenStore [''VET001'' \<mapsto> token1]"
    using b create_order_effect [of env1 "''s1''" "''VET001''" "''Ana''" "''Paz''"
            "''ana@example.com''" "''+5491155550002''" "''PICKUP''" None None world_b]
    by (simp add: world_c_def)
  show "orders_sheet world_c = [order_c]"
    using b cart cust1 m i t
    by (simp add: world_c_def create_order_def truthy_def text_of_def new_Order_def
          create_order_record_def log_event_def clear_cart_keeps
          send_order_created_notification_def create_customer_orders
          order_c_def order1_def Let_def)
qed

lemma world_d_facts: "orders_sheet world_d = [order_d]"
proof -
  have t: "ensure_valid_mp_token env1 ''VET001'' world_c = (TokenSuccess ''AT-1'', world_c)"
    using world_c_facts(1) by (rule token1_valid) simp
  have o: "order_id order_c = ''ORD-01234567''" "vet_id order_c = ''VET001''"
    by (simp_all add: order_c_def order1_def)
  have p: "create_mp_preference env1 = preference1" by (simp add: env1_def)
  show ?thesis
    using t o p world_c_facts(2)
    by (simp add: world_d_def create_payment_link_def preference_request_def
          get_order_by_id_def update_order_preference_def cell_def preference1_def
          truthy_def text_of_def order_d_def order_c_def order1_def Let_def)
qed

lemma world_d_reachable: "reachable world_d"
proof -
  have "initial world0" by (simp add: initial_def world0_def)
  then have "reachable world0" by (rule reachable.start)
  then have "reachable world_a" unfolding world_a_def by (rule reachable.authorised)
  then have "reachable world_b"
    by (rule reachable.elsewhere) (simp_all add: world_b_def)
  moreover have "hex_string (order_uuid_hex env1)"
    by (simp add: hex_string_def env1_def)
  ultimately have "reachable world_c" unfolding world_c_def by (rule reachable.order_created)
  then show ?thesis unfolding world_d_def by (rule reachable.link_created)
qed

theorem external_reference_three_parts_witness:
  "reachable world_d
   \<and> order_d \<in> set (orders_sheet world_d)
   \<and> external_reference order_d = Some ''DTV|VET001|ORD-01234567''
   \<and> split CHR ''|'' ''DTV|VET001|ORD-01234567'' = [''DTV'', vet_id order_d, order_id order_d]"
proof -
  have a: "order_d \<in> set (orders_sheet world_d)" by (simp add: world_d_facts)
  have b: "external_reference order_d = Some ''DTV|VET001|ORD-01234567''"
    by (simp add: order_d_def)
  have c: "split CHR ''|'' ''DTV|VET001|ORD-01234567''
             = [''DTV'', vet_id order_d, order_id order_d]"
    by (rule external_reference_three_parts [OF world_d_reachable a b])
  show ?thesis
    by (intro conjI world_d_reachable a b c)
qed

end
